theory Spec2Isabelle
  imports Complex_Main "HOL-Library.Sublist" "HOL-Library.AList"
begin

section \<open>JavaScript values\<close>

text \<open>
  Numbers are modelled by real numbers (every finite double is a rational); comparison,
  \<^verbatim>\<open>Math.max\<close>, \<^verbatim>\<open>Math.min\<close> and \<^verbatim>\<open>Math.round\<close> are exact on them. A number inside a
  template string is printed by \<open>num_str\<close>: an integer below \<open>10\<^sup>2\<^sup>1\<close> in magnitude as
  its decimal digits; the printing of every other number (a non-integer, or a larger
  integer, which JavaScript prints in exponent form) is the parameter \<open>fmt\<close>.
\<close>

definition digit_char :: "nat \<Rightarrow> char" where
  "digit_char d =
     (if d = 0 then CHR ''0'' else if d = 1 then CHR ''1'' else if d = 2 then CHR ''2''
      else if d = 3 then CHR ''3'' else if d = 4 then CHR ''4'' else if d = 5 then CHR ''5''
      else if d = 6 then CHR ''6'' else if d = 7 then CHR ''7'' else if d = 8 then CHR ''8''
      else CHR ''9'')"

function show_nat :: "nat \<Rightarrow> string" where
  "show_nat n = (if n < 10 then [digit_char n] else show_nat (n div 10) @ [digit_char (n mod 10)])"
  by pat_completeness auto
termination
  by (relation "measure id") auto

declare show_nat.simps [simp del]

definition show_int :: "int \<Rightarrow> string" where
  "show_int i = (if i < 0 then ''-'' @ show_nat (nat (- i)) else show_nat (nat i))"

definition num_str :: "(real \<Rightarrow> string) \<Rightarrow> real \<Rightarrow> string" where
  "num_str fmt r =
     (if of_int \<lfloor>r\<rfloor> = r \<and> \<bar>r\<bar> < 10 ^ 21 then show_int \<lfloor>r\<rfloor> else fmt r)"

text \<open>\<^verbatim>\<open>Math.round\<close>: the nearest integer, a tie going up.\<close>

definition js_round :: "real \<Rightarrow> real" where
  "js_round r = of_int \<lfloor>r + 1 / 2\<rfloor>"

text \<open>\<^verbatim>\<open>haystack.includes(needle)\<close>.\<close>

fun str_includes :: "string \<Rightarrow> string \<Rightarrow> bool" where
  "str_includes [] needle = (needle = [])"
| "str_includes (c # cs) needle = (prefix needle (c # cs) \<or> str_includes cs needle)"

text \<open>\<^verbatim>\<open>parts.join(sep)\<close>.\<close>

fun join :: "string \<Rightarrow> string list \<Rightarrow> string" where
  "join sep [] = []"
| "join sep [x] = x"
| "join sep (x # y # ys) = x @ sep @ join sep (y # ys)"

section \<open>Stream orchestrator: persisted rows and in-memory supervision table\<close>

text \<open>
  The orchestrator of \<^verbatim>\<open>electron/streaming/orchestrator.ts\<close> keeps its state in
  SQLite tables (\<^verbatim>\<open>stream_queue\<close>, \<^verbatim>\<open>stream_sessions\<close>, \<^verbatim>\<open>pages\<close>,
  \<^verbatim>\<open>videos\<close>, \<^verbatim>\<open>editing_profiles\<close>, \<^verbatim>\<open>settings\<close>) and in one
  in-memory map \<^verbatim>\<open>activeStreams\<close>. Tables are lists of rows in insertion order;
  a nullable column is an \<open>option\<close>; timestamps are seconds as \<open>nat\<close>; the
  status strings are a datatype.
\<close>

datatype status =
  Queued | Starting | Live | Stopping | Stopped | Failed | Failed_recovery | Circuit_breaker

text \<open>A JavaScript error: its \<^verbatim>\<open>message\<close> and, for an HTTP client error, the
  \<^verbatim>\<open>response.data.error.message\<close> of the remote API.\<close>

datatype error = JsError (message: string) (response_message: "string option")

record job_row =
  jid :: string
  page_id :: string
  video_id :: string
  editing_profile_id :: "string option"
  title_template :: "string option"
  description_template :: "string option"
  scheduled_time :: "string option"
  jstatus :: status
  priority :: int
  loop :: int
  playlist :: "string list option"
  first_comment :: "string option"
  recovery_attempts :: "int option"
  created_at :: nat

record session_row =
  sid :: string
  job_id :: string
  live_video_id :: "string option"
  vod_video_id :: "string option"
  stream_url :: "string option"
  started_at :: nat
  ended_at :: "nat option"
  sstatus :: status
  peak_viewers :: "int option"
  current_video_index :: "int option"
  comment_posted :: "int option"
  api_fail_count :: "int option"
  error_log :: "string option"

record page_row =
  pid :: string
  access_token_encrypted :: string
  access_token_nonce :: string
  access_token_tag :: string

record video_row =
  vid :: string
  filename :: string
  path :: string

subsection \<open>Editing profile (\<^verbatim>\<open>ProfileData\<close> of \<^verbatim>\<open>electron/streaming/ffmpeg.ts\<close>)\<close>

text \<open>An optional field is an \<open>option\<close>; a union of string literals is a datatype.
  A coordinate typed \<^verbatim>\<open>number | string\<close> is a \<open>coord\<close>; a trim bound likewise.\<close>

datatype coord = Num real | Str string

datatype aspect = A16_9 | A9_16 | A4_5 | A1_1 | Custom

datatype bg_kind = Black | Blur | Mirror | Image

datatype overlay_kind = Text | ImageOverlay

datatype animation_kind = NoAnimation | Scroll_left | Scroll_right | Fade

datatype protection_kind =
  PBlack | PWhite | Static | Grayscale | PBlur | PImage | Subtle_noise | Color_shift | Mirror_edge

datatype protection_mode = Time | Frame | Random

record crop_t =
  crop_width :: real
  crop_height :: real
  crop_x :: real
  crop_y :: real

record offset_t =
  offset_x :: real
  offset_y :: real

record flip_t =
  horizontal :: bool
  vertical :: bool

record scale_t =
  scale_width :: real
  scale_height :: real

record trim_t =
  trim_start :: "coord option"
  trim_end :: "coord option"

record color_t =
  brightness :: real
  contrast :: real
  saturation :: real
  gamma :: real
  sharpness :: "real option"

record background_t =
  bg_type :: bg_kind
  bg_imagePath :: "string option"

record shadow_t =
  shadow_x :: real
  shadow_y :: real
  shadow_color :: string

record outline_t =
  outline_width :: real
  outline_color :: string

record overlay_t =
  ov_type :: overlay_kind
  ov_content :: "string option"
  ov_x :: coord
  ov_y :: coord
  ov_opacity :: real
  ov_size :: "real option"
  ov_color :: "string option"
  bannerColor :: "string option"
  bannerOpacity :: "real option"
  bannerPadding :: "real option"
  shadow :: "shadow_t option"
  outline :: "outline_t option"
  font :: "string option"
  animation :: "animation_kind option"

record audio_t =
  volume :: real
  normalize :: "bool option"
  pitch :: "real option"

record protection_t =
  ptype :: protection_kind
  mode :: "protection_mode option"
  interval :: real
  duration :: "real option"
  strength :: "real option"
  injectionFrames :: "real option"
  imagePath :: "string option"

record ProfileData =
  crop :: "crop_t option"
  offset :: "offset_t option"
  rotate_angle :: "real option"
  flip :: "flip_t option"
  scale :: "scale_t option"
  aspectRatio :: "aspect option"
  trim :: "trim_t option"
  profile_loop :: "bool option"
  color :: "color_t option"
  zoom :: "real option"
  background :: "background_t option"
  overlays :: "overlay_t list"
  speed :: "real option"
  audio :: "audio_t option"
  protection :: "protection_t option"

text \<open>The \<^verbatim>\<open>editing_profiles\<close> table maps a profile id to the parsed \<^verbatim>\<open>data\<close>
  column; \<open>None\<close> inside is a column that \<^verbatim>\<open>JSON.parse\<close> rejects.\<close>

record db =
  stream_queue :: "job_row list"
  stream_sessions :: "session_row list"
  pages :: "page_row list"
  videos :: "video_row list"
  editing_profiles :: "string \<rightharpoonup> ProfileData option"
  settings :: "string \<rightharpoonup> string"

text \<open>\<^verbatim>\<open>activeStreams\<close> is a JavaScript \<^verbatim>\<open>Map\<close> from job id to child process (a
  process handle is a number here): an association list with distinct keys, in
  insertion order; \<^verbatim>\<open>set\<close> is \<open>AList.update\<close>, \<^verbatim>\<open>delete\<close> is \<open>AList.delete\<close>,
  \<^verbatim>\<open>get\<close> is \<open>map_of\<close>, \<^verbatim>\<open>size\<close> is \<open>length\<close>. The termination signals sent so
  far (\<^verbatim>\<open>child.kill('SIGTERM')\<close>) are kept as the log \<open>signalled\<close> of process handles.\<close>

record orch =
  database :: db
  activeStreams :: "(string \<times> nat) list"
  signalled :: "nat list"

definition MAX_API_FAILURES :: int where
  "MAX_API_FAILURES = 5"

definition MAX_RECOVERY_ATTEMPTS :: int where
  "MAX_RECOVERY_ATTEMPTS = 3"

definition maxConcurrent :: nat where
  "maxConcurrent = 5"

subsection \<open>Row access\<close>

definition get_job :: "db \<Rightarrow> string \<Rightarrow> job_row option" where
  "get_job d i = find (\<lambda>j. jid j = i) (stream_queue d)"

definition update_job :: "string \<Rightarrow> (job_row \<Rightarrow> job_row) \<Rightarrow> db \<Rightarrow> db" where
  "update_job i f d =
     d\<lparr>stream_queue := map (\<lambda>j. if jid j = i then f j else j) (stream_queue d)\<rparr>"

definition update_sessions :: "(session_row \<Rightarrow> bool) \<Rightarrow> (session_row \<Rightarrow> session_row) \<Rightarrow> db \<Rightarrow> db" where
  "update_sessions P f d =
     d\<lparr>stream_sessions := map (\<lambda>s. if P s then f s else s) (stream_sessions d)\<rparr>"

definition set_job_status :: "string \<Rightarrow> status \<Rightarrow> db \<Rightarrow> db" where
  "set_job_status i st d = update_job i (\<lambda>j. j\<lparr>jstatus := st\<rparr>) d"

text \<open>JavaScript's \<^verbatim>\<open>x || 0\<close> on a nullable integer column.\<close>

definition or_zero :: "int option \<Rightarrow> int" where
  "or_zero v = (case v of None \<Rightarrow> 0 | Some n \<Rightarrow> n)"

subsection \<open>Exit handler (\<^verbatim>\<open>child.on('close', ...)\<close> in \<^verbatim>\<open>startStream\<close>)\<close>

text \<open>
  The handler receives the exit code (\<open>None\<close> is JavaScript's \<^verbatim>\<open>null\<close>, the code of
  a process killed by a signal), and closes over the job id and the \<^verbatim>\<open>videoIndex\<close>
  the process was started with. It returns the new state and either the error it
  throws or the index it calls \<^verbatim>\<open>startStream\<close> with (\<open>None\<close>: no restart).
  Reading a field of a missing row (\<^verbatim>\<open>currentJob.playlist\<close> when the row is gone)
  is a TypeError.
\<close>

definition finalize_stopped :: "nat \<Rightarrow> string \<Rightarrow> db \<Rightarrow> db" where
  "finalize_stopped now i d =
     update_sessions (\<lambda>s. job_id s = i) (\<lambda>s. s\<lparr>sstatus := Stopped, ended_at := Some now\<rparr>)
       (set_job_status i Stopped d)"

definition hasPlaylist :: "string list option \<Rightarrow> bool" where
  "hasPlaylist pl = (case pl of None \<Rightarrow> False | Some xs \<Rightarrow> length xs > 1)"

definition playlist_length :: "string list option \<Rightarrow> nat" where
  "playlist_length pl = (case pl of None \<Rightarrow> 0 | Some xs \<Rightarrow> length xs)"

text \<open>The TypeError of reading the field \<open>f\<close> of \<^verbatim>\<open>undefined\<close>.\<close>

definition undefined_read :: "string \<Rightarrow> error" where
  "undefined_read f =
     JsError (''Cannot read properties of undefined (reading '' @ [CHR 0x27] @ f @ [CHR 0x27]
                @ '')'') None"

text \<open>The exit code inside the template string of the session's error text.\<close>

definition code_str :: "int option \<Rightarrow> string" where
  "code_str c = (case c of None \<Rightarrow> ''null'' | Some n \<Rightarrow> show_int n)"

definition on_close :: "nat \<Rightarrow> orch \<Rightarrow> string \<Rightarrow> nat \<Rightarrow> int option \<Rightarrow> orch \<times> (error + nat option)" where
  "on_close now st i videoIndex code =
     (let st1 = st\<lparr>activeStreams := AList.delete i (activeStreams st)\<rparr>;
          d = database st1
      in case get_job d i of
           None \<Rightarrow>
             (st1, Inl (undefined_read (if code = Some 0 then ''playlist''
                                        else ''recovery_attempts'')))
         | Some currentJob \<Rightarrow>
             if jstatus currentJob = Stopping then
               (st1\<lparr>database := finalize_stopped now i d\<rparr>, Inr None)
             else if code = Some 0 then
               (if hasPlaylist (playlist currentJob) then
                  (let nextIndex = videoIndex + 1 in
                   if loop currentJob = 2 then (st1, Inr (Some videoIndex))
                   else if nextIndex < playlist_length (playlist currentJob) then
                     (st1, Inr (Some nextIndex))
                   else if loop currentJob = 1 then (st1, Inr (Some 0))
                   else (st1\<lparr>database := finalize_stopped now i d\<rparr>, Inr None))
                else if loop currentJob \<ge> 1 then (st1, Inr (Some 0))
                else (st1\<lparr>database := finalize_stopped now i d\<rparr>, Inr None))
             else
               (let currentAttempts = or_zero (recovery_attempts currentJob) + 1;
                    d1 = (if currentAttempts \<ge> MAX_RECOVERY_ATTEMPTS
                          then update_job i (\<lambda>j. j\<lparr>jstatus := Failed,
                                 recovery_attempts := Some currentAttempts\<rparr>) d
                          else update_job i (\<lambda>j. j\<lparr>jstatus := Failed_recovery,
                                 recovery_attempts := Some currentAttempts\<rparr>) d);
                    d2 = update_sessions (\<lambda>s. job_id s = i)
                           (\<lambda>s. s\<lparr>sstatus := Failed,
                              error_log := Some (''Process exited with code '' @ code_str code)\<rparr>) d1
                in (st1\<lparr>database := d2\<rparr>, Inr None)))"

section \<open>Pipeline compiler (\<^verbatim>\<open>FfmpegCommandBuilder\<close>)\<close>

text \<open>
  The builder object is a record; \<^verbatim>\<open>applyProfile\<close> mutates it stage by stage and
  \<^verbatim>\<open>build\<close> serializes it. The parameters of the JavaScript runtime that the
  model does not fix are in \<open>js_env\<close>: the printing of a number that is not a small
  integer, \<^verbatim>\<open>Number(s)\<close> of a string (\<open>None\<close> is \<^verbatim>\<open>NaN\<close>), and the rounding \<open>fl\<close> of the
  exact result of a multiplication or a division to a double.
\<close>

record js_env =
  fmt :: "real \<Rightarrow> string"
  parseNumber :: "string \<Rightarrow> real option"
  fl :: "real \<Rightarrow> real"

record logo_input =
  logo_path :: string
  logo_x :: coord
  logo_y :: coord
  logo_width :: "real option"
  logo_height :: "real option"
  logo_enable :: "string option"

record builder =
  inputPath :: string
  bitrate :: real
  audioBitrate :: real
  videoFilters :: "string list"
  audioFilters :: "string list"
  logoInputs :: "logo_input list"
  backgroundInput :: "string option"
  trimArgs :: "string list"
  builder_loop :: bool
  targetW :: real
  targetH :: real

definition new_builder :: "string \<Rightarrow> builder" where
  "new_builder p =
     \<lparr>inputPath = p, bitrate = 4500, audioBitrate = 128, videoFilters = [], audioFilters = [],
      logoInputs = [], backgroundInput = None, trimArgs = [], builder_loop = True,
      targetW = 1920, targetH = 1080\<rparr>"

text \<open>The result of one arithmetic operation whose exact value is \<open>x\<close>: the rounding of
  the runtime, which stays within the relative distance \<open>2\<^sup>-\<^sup>5\<^sup>3\<close> of \<open>x\<close>. It is applied
  where the result goes through \<^verbatim>\<open>Math.round\<close>, which can turn the last bit into a
  different integer; a result that is only printed is handed to \<open>fmt\<close> as it is.\<close>

definition double :: "js_env \<Rightarrow> real \<Rightarrow> real" where
  "double js x = max (x - \<bar>x\<bar> / 2 ^ 53) (min (x + \<bar>x\<bar> / 2 ^ 53) (fl js x))"

definition backslash :: string where
  "backslash = [CHR 0x5C]"

definition quote :: string where
  "quote = [CHR 0x27]"

definition ns :: "js_env \<Rightarrow> real \<Rightarrow> string" where
  "ns js r = num_str (fmt js) r"

text \<open>A number that may be \<^verbatim>\<open>NaN\<close>, inside a template string.\<close>

definition nan_str :: "js_env \<Rightarrow> real option \<Rightarrow> string" where
  "nan_str js v = (case v of None \<Rightarrow> ''NaN'' | Some r \<Rightarrow> ns js r)"

definition js_Number :: "js_env \<Rightarrow> coord \<Rightarrow> real option" where
  "js_Number js c = (case c of Num r \<Rightarrow> Some r | Str s \<Rightarrow> parseNumber js s)"

definition coord_str :: "js_env \<Rightarrow> coord \<Rightarrow> string" where
  "coord_str js c = (case c of Num r \<Rightarrow> ns js r | Str s \<Rightarrow> s)"

text \<open>\<^verbatim>\<open>c || 0\<close>: zero and the empty string are falsy.\<close>

definition coord_or_zero :: "coord \<Rightarrow> coord" where
  "coord_or_zero c = (case c of Num r \<Rightarrow> Num r | Str s \<Rightarrow> (if s = [] then Num 0 else Str s))"

text \<open>\<^verbatim>\<open>v || d\<close> on an optional number and on an optional string.\<close>

definition num_or :: "real option \<Rightarrow> real \<Rightarrow> real" where
  "num_or v d = (case v of None \<Rightarrow> d | Some r \<Rightarrow> (if r = 0 then d else r))"

definition str_or :: "string option \<Rightarrow> string \<Rightarrow> string" where
  "str_or v d = (case v of None \<Rightarrow> d | Some s \<Rightarrow> (if s = [] then d else s))"

definition push_vf :: "string \<Rightarrow> builder \<Rightarrow> builder" where
  "push_vf f b = b\<lparr>videoFilters := videoFilters b @ [f]\<rparr>"

definition push_af :: "string \<Rightarrow> builder \<Rightarrow> builder" where
  "push_af f b = b\<lparr>audioFilters := audioFilters b @ [f]\<rparr>"

subsection \<open>Stages 0 to 2: loop flag, input trim, crop\<close>

definition apply_loop :: "ProfileData \<Rightarrow> builder \<Rightarrow> builder" where
  "apply_loop profile b =
     (case profile_loop profile of None \<Rightarrow> b | Some l \<Rightarrow> b\<lparr>builder_loop := l\<rparr>)"

definition trim_given :: "coord option \<Rightarrow> bool" where
  "trim_given v = (case v of None \<Rightarrow> False | Some (Str s) \<Rightarrow> s \<noteq> [] | Some (Num r) \<Rightarrow> True)"

definition apply_trim :: "js_env \<Rightarrow> ProfileData \<Rightarrow> builder \<Rightarrow> builder" where
  "apply_trim js profile b =
     (case trim profile of
        None \<Rightarrow> b
      | Some t \<Rightarrow>
          (let a1 = (if trim_given (trim_start t)
                     then [''-ss'', coord_str js (the (trim_start t))] else []);
               a2 = (if trim_given (trim_end t)
                     then [''-to'', coord_str js (the (trim_end t))] else [])
           in b\<lparr>trimArgs := trimArgs b @ a1 @ a2\<rparr>))"

definition apply_crop :: "js_env \<Rightarrow> ProfileData \<Rightarrow> builder \<Rightarrow> builder" where
  "apply_crop js profile b =
     (case crop profile of
        None \<Rightarrow> b
      | Some c \<Rightarrow>
          if crop_width c > 0 \<and> crop_height c > 0
          then push_vf (''crop='' @ ns js (crop_width c) @ '':'' @ ns js (crop_height c) @ '':''
                          @ ns js (crop_x c) @ '':'' @ ns js (crop_y c)) b
          else b)"

subsection \<open>Stage 3: smart layout (aspect ratio, scale, zoom, background)\<close>

definition target_resolution :: "ProfileData \<Rightarrow> real \<times> real" where
  "target_resolution profile =
     (case aspectRatio profile of
        Some A1_1 \<Rightarrow> (1080, 1080)
      | Some A4_5 \<Rightarrow> (1080, 1350)
      | Some A9_16 \<Rightarrow> (1080, 1920)
      | Some A16_9 \<Rightarrow> (1920, 1080)
      | _ \<Rightarrow> (case scale profile of
                None \<Rightarrow> (1920, 1080)
              | Some sc \<Rightarrow> (scale_width sc, scale_height sc)))"

definition profile_zoom :: "ProfileData \<Rightarrow> real" where
  "profile_zoom profile = num_or (zoom profile) 1"

definition bgType :: "ProfileData \<Rightarrow> bg_kind" where
  "bgType profile = (case background profile of None \<Rightarrow> Black | Some bg \<Rightarrow> bg_type bg)"

definition needsSmartLayout :: "ProfileData \<Rightarrow> bool" where
  "needsSmartLayout profile = (profile_zoom profile \<noteq> 1 \<or> bgType profile \<noteq> Black)"

definition simple_scale :: "js_env \<Rightarrow> real \<Rightarrow> real \<Rightarrow> string" where
  "simple_scale js w h =
     ''scale='' @ ns js w @ '':'' @ ns js h @ '':force_original_aspect_ratio=decrease,pad=''
       @ ns js w @ '':'' @ ns js h @ '':(ow-iw)/2:(oh-ih)/2''"

definition fgChain :: "js_env \<Rightarrow> real \<Rightarrow> real \<Rightarrow> real \<Rightarrow> string" where
  "fgChain js z w h =
     ''[fg_src]scale=iw*'' @ ns js z @ '':ih*'' @ ns js z @ '',scale=w='' @ ns js w @ '':h=''
       @ ns js h @ '':force_original_aspect_ratio=decrease[fg]''"

text \<open>The background image of the profile, when the image branch is taken:
  \<^verbatim>\<open>bgType === 'image' && profile.background?.imagePath\<close>.\<close>

definition bg_image :: "ProfileData \<Rightarrow> string option" where
  "bg_image profile =
     (case background profile of
        None \<Rightarrow> None
      | Some bg \<Rightarrow>
          (if bg_type bg = Image
           then (case bg_imagePath bg of None \<Rightarrow> None
                 | Some p \<Rightarrow> (if p = [] then None else Some p))
           else None))"

definition bgChain :: "js_env \<Rightarrow> ProfileData \<Rightarrow> real \<Rightarrow> real \<Rightarrow> string" where
  "bgChain js profile w h =
     (if bgType profile = Blur then
        ''[bg_src]scale='' @ ns js w @ '':'' @ ns js h @ '':force_original_aspect_ratio=increase,crop=''
          @ ns js w @ '':'' @ ns js h @ '',boxblur=luma_radius=min(h'' @ backslash
          @ '',w)/10:luma_power=1[bg]''
      else if bgType profile = Mirror then
        ''[bg_src]scale='' @ ns js w @ '':'' @ ns js h @ '':force_original_aspect_ratio=increase,crop=''
          @ ns js w @ '':'' @ ns js h @ '',hflip,boxblur=20[bg]''
      else if bg_image profile \<noteq> None then
        ''[bg_img]scale='' @ ns js w @ '':'' @ ns js h @ '':force_original_aspect_ratio=increase,crop=''
          @ ns js w @ '':'' @ ns js h @ ''[bg]''
      else ''color=c=black:s='' @ ns js w @ ''x'' @ ns js h @ ''[bg]'')"

definition overlay_tail :: "js_env \<Rightarrow> ProfileData \<Rightarrow> string" where
  "overlay_tail js profile =
     (let offX = (case offset profile of None \<Rightarrow> 0 | Some off \<Rightarrow> offset_x off);
          offY = (case offset profile of None \<Rightarrow> 0 | Some off \<Rightarrow> offset_y off)
      in ''[bg][fg]overlay=(W-w)/2+('' @ ns js offX @ ''*W/100):(H-h)/2+('' @ ns js offY
           @ ''*H/100)'')"

definition layout_graph :: "js_env \<Rightarrow> ProfileData \<Rightarrow> real \<Rightarrow> real \<Rightarrow> string" where
  "layout_graph js profile w h =
     (let fg = fgChain js (profile_zoom profile) w h;
          bg = bgChain js profile w h
      in if bgType profile = Black then
           ''split=1[fg_src];color=c=black:s='' @ ns js w @ ''x'' @ ns js h @ ''[bg];'' @ fg @ '';''
             @ overlay_tail js profile
         else if bgType profile = Image then
           ''split=1[fg_src];'' @ bg @ '';'' @ fg @ '';'' @ overlay_tail js profile
         else
           ''split=2[bg_src][fg_src];'' @ bg @ '';'' @ fg @ '';'' @ overlay_tail js profile)"

text \<open>The one filter entry this stage pushes.\<close>

definition layout_filter :: "js_env \<Rightarrow> ProfileData \<Rightarrow> string" where
  "layout_filter js profile =
     (let (w, h) = target_resolution profile
      in if \<not> needsSmartLayout profile then simple_scale js w h
         else layout_graph js profile w h)"

definition apply_layout :: "js_env \<Rightarrow> ProfileData \<Rightarrow> builder \<Rightarrow> builder" where
  "apply_layout js profile b =
     (let (w, h) = target_resolution profile;
          b1 = b\<lparr>targetW := w, targetH := h\<rparr>;
          b2 = (if needsSmartLayout profile \<and> bg_image profile \<noteq> None
                then b1\<lparr>backgroundInput := bg_image profile\<rparr> else b1)
      in push_vf (layout_filter js profile) b2)"

subsection \<open>Stages 4 to 6: rotate, flip, colour\<close>

definition apply_rotate :: "ProfileData \<Rightarrow> builder \<Rightarrow> builder" where
  "apply_rotate profile b =
     (case rotate_angle profile of
        None \<Rightarrow> b
      | Some angle \<Rightarrow>
          if angle = 90 then push_vf ''transpose=1'' b
          else if angle = 180 then push_vf ''transpose=2,transpose=2'' b
          else if angle = 270 then push_vf ''transpose=2'' b
          else b)"

definition apply_flip :: "ProfileData \<Rightarrow> builder \<Rightarrow> builder" where
  "apply_flip profile b =
     (case flip profile of
        None \<Rightarrow> b
      | Some f \<Rightarrow>
          (let b1 = (if horizontal f then push_vf ''hflip'' b else b)
           in if vertical f then push_vf ''vflip'' b1 else b1))"

definition apply_color :: "js_env \<Rightarrow> ProfileData \<Rightarrow> builder \<Rightarrow> builder" where
  "apply_color js profile b =
     (case color profile of
        None \<Rightarrow> b
      | Some c \<Rightarrow>
          (let eqParams =
                 (if brightness c \<noteq> 0 then [''brightness='' @ ns js (brightness c)] else [])
               @ (if contrast c \<noteq> 1 then [''contrast='' @ ns js (contrast c)] else [])
               @ (if saturation c \<noteq> 1 then [''saturation='' @ ns js (saturation c)] else [])
               @ (if gamma c \<noteq> 1 then [''gamma='' @ ns js (gamma c)] else []);
               b1 = (if eqParams \<noteq> [] then push_vf (''eq='' @ join '':'' eqParams) b else b)
           in case sharpness c of
                None \<Rightarrow> b1
              | Some s \<Rightarrow>
                  if s > 0
                  then push_vf (''unsharp=5:5:'' @ ns js (1 + s * 5 / 2) @ '':5:5:''
                                  @ ns js (1 / 2 + s * 1)) b1
                  else b1))"

subsection \<open>Stage 7: protection (frame injection)\<close>

text \<open>The guard of the stage.\<close>

definition protection_active :: "protection_t \<Rightarrow> bool" where
  "protection_active p =
     (interval p > 0 \<or> (mode p \<noteq> Some Time \<and> num_or (injectionFrames p) 0 > 0))"

text \<open>The local constants of the three trigger modes (\<open>inj_count\<close> is the source's
  \<^verbatim>\<open>inj\<close>).\<close>

definition iFrames :: "protection_t \<Rightarrow> real" where
  "iFrames p = max 2 (js_round (interval p))"

definition inj_count :: "protection_t \<Rightarrow> real" where
  "inj_count p = max 1 (js_round (num_or (injectionFrames p) 1))"

definition prob :: "protection_t \<Rightarrow> real" where
  "prob p =
     (let denom = max 1 (interval p);
          num = max 1 (num_or (injectionFrames p) 1)
      in min 1 (num / denom))"

definition time_interval :: "protection_t \<Rightarrow> real" where
  "time_interval p = max (1 / 10) (interval p)"

definition time_duration :: "protection_t \<Rightarrow> real" where
  "time_duration p = num_or (duration p) (4 / 100)"

definition enableExpr :: "js_env \<Rightarrow> protection_t \<Rightarrow> string" where
  "enableExpr js p =
     (if mode p = Some Frame then
        ''lt(mod(n,'' @ ns js (iFrames p) @ ''),'' @ ns js (inj_count p) @ '')''
      else if mode p = Some Random then
        ''lt(random(1),'' @ ns js (prob p) @ '')''
      else
        ''lt(mod(t,'' @ ns js (time_interval p) @ ''),'' @ ns js (time_duration p) @ '')'')"

definition enable_suffix :: "string \<Rightarrow> string" where
  "enable_suffix e = '':enable='' @ quote @ e @ quote"

definition protection_image :: "protection_t \<Rightarrow> string option" where
  "protection_image p =
     (if ptype p = PImage
      then (case imagePath p of None \<Rightarrow> None | Some ip \<Rightarrow> (if ip = [] then None else Some ip))
      else None)"

definition apply_protection :: "js_env \<Rightarrow> ProfileData \<Rightarrow> builder \<Rightarrow> builder" where
  "apply_protection js profile b =
     (case protection profile of
        None \<Rightarrow> b
      | Some p \<Rightarrow>
          if \<not> protection_active p then b
          else
            (let e = enableExpr js p;
                 str = num_or (strength p) 1
             in if ptype p = Static then
                  push_vf (''noise=alls='' @ ns js (js_round (double js (100 * str))) @ '':allf=t+u''
                             @ enable_suffix e) b
                else if ptype p = Grayscale then
                  push_vf (''hue=s=0'' @ enable_suffix e) b
                else if ptype p = PBlur then
                  push_vf (''boxblur=luma_radius='' @ ns js (js_round (double js (10 * str)))
                             @ '':luma_power=1'' @ enable_suffix e) b
                else if ptype p = Subtle_noise then
                  push_vf (''noise=alls='' @ ns js (js_round (double js (5 * str))) @ '':allf=t'') b
                else if ptype p = Color_shift then
                  push_vf (''hue=h=sin(t*'' @ ns js str @ '')*10'' @ enable_suffix e) b
                else if ptype p = Mirror_edge then
                  push_vf (''crop=iw-4:ih:2:0,hflip,pad=iw+4:ih:2:0'' @ enable_suffix e) b
                else if protection_image p \<noteq> None then
                  b\<lparr>logoInputs := logoInputs b @
                      [\<lparr>logo_path = the (protection_image p), logo_x = Str ''(W-w)/2'',
                        logo_y = Str ''(H-h)/2'', logo_width = None, logo_height = None,
                        logo_enable = Some e\<rparr>]\<rparr>
                else
                  (let colour = (if ptype p = PWhite then ''white'' else ''black'')
                   in push_vf (''drawbox=t=fill:color='' @ colour @ enable_suffix e) b)))"

subsection \<open>Stage 8: overlays and banners\<close>

text \<open>\<^verbatim>\<open>s.replace(/c/g, r)\<close> for a single character \<open>c\<close>.\<close>

definition replace_char :: "char \<Rightarrow> string \<Rightarrow> string \<Rightarrow> string" where
  "replace_char c r s = concat (map (\<lambda>x. if x = c then r else [x]) s)"

text \<open>\<^verbatim>\<open>s.split('=')[1]\<close> of a string that contains \<^verbatim>\<open>=\<close>.\<close>

definition after_eq :: "string \<Rightarrow> string" where
  "after_eq s = takeWhile (\<lambda>c. c \<noteq> CHR ''='') (drop 1 (dropWhile (\<lambda>c. c \<noteq> CHR ''='') s))"

definition text_params :: "js_env \<Rightarrow> overlay_t \<Rightarrow> string list" where
  "text_params js ov =
     (let fontSize = num_or (ov_size ov) 24;
          x = coord_or_zero (ov_x ov);
          y = coord_or_zero (ov_y ov);
          fontColor = str_or (ov_color ov) ''white'';
          fontPath = str_or (font ov) ''C:/Windows/Fonts/Arial.ttf'';
          escapedContent =
            replace_char (CHR '':'') (backslash @ '':'')
              (replace_char (CHR 0x27) (quote @ backslash @ backslash @ quote @ quote)
                 (the (ov_content ov)));
          escapedFontPath =
            replace_char (CHR '':'') (backslash @ '':'') (replace_char (CHR 0x5C) ''/'' fontPath);
          p0 = ''text='' @ quote @ escapedContent @ quote;
          p1 = (if animation ov = Some Scroll_left then
                  ''x=w-mod(t*100'' @ backslash @ '',w+tw)''
                else if animation ov = Some Scroll_right then
                  ''x=-tw+mod(t*100'' @ backslash @ '',w+tw)''
                else ''x=w*'' @ nan_str js (map_option (\<lambda>r. r / 100) (js_Number js x)));
          p2 = ''y=h*'' @ nan_str js (map_option (\<lambda>r. r / 100) (js_Number js y));
          p3 = ''fontsize=w*('' @ ns js fontSize @ ''/1000)'';
          p4 = ''fontcolor='' @ fontColor;
          p5 = (if animation ov = Some Fade then
                  ''alpha=if(lt(mod(t'' @ backslash @ '',4)'' @ backslash @ '',2)'' @ backslash
                    @ '',mod(t'' @ backslash @ '',2)'' @ backslash @ '',2-mod(t'' @ backslash
                    @ '',2))''
                else ''alpha='' @ ns js (ov_opacity ov));
          p6 = ''fontfile='' @ quote @ escapedFontPath @ quote;
          sh = (case shadow ov of
                  None \<Rightarrow> []
                | Some s \<Rightarrow> [''shadowcolor='' @ shadow_color s, ''shadowx='' @ ns js (shadow_x s),
                             ''shadowy='' @ ns js (shadow_y s)]);
          ol = (case outline ov of
                  None \<Rightarrow> []
                | Some l \<Rightarrow>
                    (if outline_width l > 0
                     then [''borderw='' @ ns js (outline_width l), ''bordercolor='' @ outline_color l]
                     else []))
      in [p0, p1, p2, p3, p4, p5, p6] @ sh @ ol)"

definition banner_box :: "js_env \<Rightarrow> overlay_t \<Rightarrow> string list \<Rightarrow> string" where
  "banner_box js ov params =
     (let bc = the (bannerColor ov);
          bo = num_or (bannerOpacity ov) (1 / 2);
          bp = num_or (bannerPadding ov) 10
      in ''drawbox=x='' @ after_eq (params ! 1) @ ''-'' @ ns js bp @ '':y='' @ after_eq (params ! 2)
           @ ''-'' @ ns js bp @ '':w=tw+'' @ ns js (bp * 2) @ '':h=th+'' @ ns js (bp * 2)
           @ '':color='' @ bc @ ''@'' @ ns js bo @ '':t=fill'')"

definition has_content :: "overlay_t \<Rightarrow> bool" where
  "has_content ov = (case ov_content ov of None \<Rightarrow> False | Some c \<Rightarrow> c \<noteq> [])"

definition apply_overlay :: "js_env \<Rightarrow> overlay_t \<Rightarrow> builder \<Rightarrow> builder" where
  "apply_overlay js ov b =
     (if ov_type ov = Text \<and> has_content ov then
        (let params = text_params js ov;
             b1 = (if str_or (bannerColor ov) [] \<noteq> [] then push_vf (banner_box js ov params) b
                   else b)
         in push_vf (''drawtext='' @ join '':'' params) b1)
      else if ov_type ov = ImageOverlay \<and> has_content ov then
        b\<lparr>logoInputs := logoInputs b @
            [\<lparr>logo_path = the (ov_content ov), logo_x = ov_x ov, logo_y = ov_y ov,
              logo_width = ov_size ov, logo_height = Some (- 1), logo_enable = None\<rparr>]\<rparr>
      else b)"

definition apply_overlays :: "js_env \<Rightarrow> ProfileData \<Rightarrow> builder \<Rightarrow> builder" where
  "apply_overlays js profile b = fold (apply_overlay js) (overlays profile) b"

subsection \<open>Stages 9 and 10: speed and audio\<close>

definition apply_speed :: "js_env \<Rightarrow> ProfileData \<Rightarrow> builder \<Rightarrow> builder" where
  "apply_speed js profile b =
     (case speed profile of
        None \<Rightarrow> b
      | Some sp \<Rightarrow>
          if sp \<noteq> 0 \<and> sp \<noteq> 1
          then push_af (''atempo='' @ ns js sp) (push_vf (''setpts='' @ ns js (1 / sp) @ ''*PTS'') b)
          else b)"

definition apply_audio :: "js_env \<Rightarrow> ProfileData \<Rightarrow> builder \<Rightarrow> builder" where
  "apply_audio js profile b =
     (case audio profile of
        None \<Rightarrow> b
      | Some a \<Rightarrow>
          (let b1 = (if volume a \<noteq> 1 then push_af (''volume='' @ ns js (volume a)) b else b);
               b2 = (if normalize a = Some True then push_af ''loudnorm'' b1 else b1)
           in case pitch a of
                None \<Rightarrow> b2
              | Some pt \<Rightarrow>
                  if pt \<noteq> 0 \<and> pt \<noteq> 1
                  then push_af (''asetrate='' @ ns js (44100 * pt) @ '',aresample='' @ ns js 44100) b2
                  else b2))"

subsection \<open>\<^verbatim>\<open>applyProfile\<close>: the stages in their fixed order\<close>

definition applyProfile :: "js_env \<Rightarrow> ProfileData \<Rightarrow> builder \<Rightarrow> builder" where
  "applyProfile js profile b =
     apply_audio js profile
       (apply_speed js profile
         (apply_overlays js profile
           (apply_protection js profile
             (apply_color js profile
               (apply_flip profile
                 (apply_rotate profile
                   (apply_layout js profile
                     (apply_crop js profile
                       (apply_trim js profile
                         (apply_loop profile b))))))))))"

subsection \<open>Encoder choice (\<^verbatim>\<open>HardwareDetector.getBestEncoder\<close>)\<close>

record encoders =
  nvenc :: bool
  qsv :: bool
  amf :: bool
  vaapi :: bool

definition getBestEncoder :: "encoders \<Rightarrow> string" where
  "getBestEncoder info =
     (if nvenc info then ''h264_nvenc''
      else if qsv info then ''h264_qsv''
      else if amf info then ''h264_amf''
      else if vaapi info then ''h264_vaapi''
      else ''libx264'')"

subsection \<open>\<^verbatim>\<open>build\<close>: argument assembly\<close>

text \<open>\<^verbatim>\<open>s.replace(pat, rep)\<close> with a string pattern: the first occurrence only.\<close>

fun replace_first :: "string \<Rightarrow> string \<Rightarrow> string \<Rightarrow> string" where
  "replace_first pat rep [] = (if pat = [] then rep else [])"
| "replace_first pat rep (c # cs) =
     (if prefix pat (c # cs) then rep @ drop (length pat) (c # cs)
      else c # replace_first pat rep cs)"

text \<open>The index of the background image among the inputs, \<open>None\<close> for \<^verbatim>\<open>-1\<close>.\<close>

definition bgInputIdx :: "builder \<Rightarrow> nat option" where
  "bgInputIdx b =
     (case backgroundInput b of
        None \<Rightarrow> None
      | Some p \<Rightarrow> (if p = [] then None else Some (1 + length (logoInputs b))))"

definition logo_dim :: "js_env \<Rightarrow> real \<Rightarrow> real option \<Rightarrow> real" where
  "logo_dim js target v =
     (case v of
        None \<Rightarrow> - 1
      | Some d \<Rightarrow>
          (if d \<noteq> 0 \<and> d > 0 then js_round (double js (target * double js (d / 1000)))
           else - 1))"

text \<open>The body of \<^verbatim>\<open>logoInputs.forEach((logo, i) => ...)\<close>: the accumulator is
  \<^verbatim>\<open>filterChain\<close> and \<^verbatim>\<open>lastV\<close>.\<close>

fun logo_chain :: "js_env \<Rightarrow> real \<Rightarrow> real \<Rightarrow> nat \<Rightarrow> logo_input list \<Rightarrow> string \<times> string
                     \<Rightarrow> string \<times> string" where
  "logo_chain js w h i [] acc = acc"
| "logo_chain js w h i (logo # rest) (filterChain, lastV) =
     (let logoIdx = i + 1;
          scaledLabel = ''sc'' @ show_nat logoIdx;
          logoW = logo_dim js w (logo_width logo);
          logoH = logo_dim js h (logo_height logo);
          fc1 = filterChain @ ''['' @ show_nat logoIdx @ '':v]scale='' @ ns js logoW @ '':''
                  @ ns js logoH @ ''['' @ scaledLabel @ ''];'';
          overlayInput = ''['' @ scaledLabel @ '']'';
          outV = ''vov'' @ show_nat logoIdx;
          x = map_option (\<lambda>r. r / 100) (js_Number js (coord_or_zero (logo_x logo)));
          y = map_option (\<lambda>r. r / 100) (js_Number js (coord_or_zero (logo_y logo)));
          overlayFilter = ''overlay=x=(W*'' @ nan_str js x @ ''):y=(H*'' @ nan_str js y @ '')'';
          finalOverlay = (if str_or (logo_enable logo) [] \<noteq> []
                          then overlayFilter @ enable_suffix (the (logo_enable logo))
                          else overlayFilter);
          fc2 = fc1 @ ''['' @ lastV @ '']'' @ overlayInput @ finalOverlay @ ''['' @ outV @ ''];''
      in logo_chain js w h (i + 1) rest (fc2, outV))"

definition filter_args :: "js_env \<Rightarrow> builder \<Rightarrow> string list" where
  "filter_args js b =
     (if length (logoInputs b) > 0 then
        (let chainStr = join '','' (videoFilters b);
             chainStr' = (case bgInputIdx b of
                            None \<Rightarrow> chainStr
                          | Some k \<Rightarrow> replace_first ''[bg_img]'' (''['' @ show_nat k @ '':v]'') chainStr);
             start = ''[0:v]'' @ (if length (videoFilters b) > 0 then chainStr' else ''null'')
                       @ ''[vbase];'';
             (filterChain, lastV) =
               logo_chain js (targetW b) (targetH b) 0 (logoInputs b) (start, ''vbase'')
         in [''-filter_complex'', butlast filterChain, ''-map'', ''['' @ lastV @ '']'', ''-map'', ''0:a''])
      else if length (videoFilters b) > 0 then [''-vf'', join '','' (videoFilters b)]
      else [])"

definition build :: "js_env \<Rightarrow> string \<Rightarrow> string \<Rightarrow> bool \<Rightarrow> builder \<Rightarrow> string list" where
  "build js encoder rtmpUrl lp b =
     (if lp then [''-stream_loop'', ''-1''] else [])
     @ (if encoder = ''h264_nvenc'' then [''-hwaccel'', ''cuda'']
        else if encoder = ''h264_qsv'' then [''-hwaccel'', ''qsv''] else [])
     @ trimArgs b
     @ [''-re'']
     @ [''-i'', inputPath b]
     @ concat (map (\<lambda>logo. [''-i'', logo_path logo]) (logoInputs b))
     @ (case bgInputIdx b of None \<Rightarrow> [] | Some k \<Rightarrow> [''-i'', the (backgroundInput b)])
     @ filter_args js b
     @ (if length (audioFilters b) > 0 then [''-af'', join '','' (audioFilters b)] else [])
     @ [''-c:v'', encoder]
     @ [''-b:v'', ns js (bitrate b) @ ''k'']
     @ [''-pix_fmt'', ''yuv420p'']
     @ [''-c:a'', ''aac'', ''-b:a'', ns js (audioBitrate b) @ ''k'', ''-ar'', ''44100'']
     @ [''-f'', ''flv'', rtmpUrl]"

definition forStreaming :: "js_env \<Rightarrow> string \<Rightarrow> string \<Rightarrow> bool option \<Rightarrow> builder \<Rightarrow> string list" where
  "forStreaming js encoder rtmpUrl loopOverride b =
     build js encoder rtmpUrl (case loopOverride of Some l \<Rightarrow> l | None \<Rightarrow> builder_loop b) b"

section \<open>Stream orchestrator: operations\<close>

subsection \<open>External collaborators\<close>

text \<open>
  The credential vault, the remote platform client, the hardware probe and the process
  spawner are parameters. A remote call takes the number of the attempt (0 for the
  first call, 1 for the retry of the recovery wrapper) besides the credential, since the
  remote side may answer the same request differently the second time. The clock counts
  seconds; \<open>utc_offset\<close> is the number of seconds local time is ahead of UTC.
\<close>

record encrypted =
  ciphertext :: string
  nonce :: string
  authTag :: string

record PageInfo =
  info_id :: string
  access_token :: string

record live_video =
  lv_id :: string
  lv_video_id :: "string option"
  lv_stream_url :: "string option"

record status_response =
  live_views :: "int option"
  fb_status :: string

record env =
  runtime :: js_env
  decrypt :: "string \<Rightarrow> string \<Rightarrow> string \<Rightarrow> error + string"
  encrypt :: "string \<Rightarrow> encrypted"
  syncPageTokens :: "string \<Rightarrow> string \<Rightarrow> string \<Rightarrow> error + PageInfo list"
  createLiveVideo :: "string \<Rightarrow> string \<Rightarrow> string \<Rightarrow> nat \<Rightarrow> string \<Rightarrow> error + live_video"
  getLiveStatus :: "string option \<Rightarrow> nat \<Rightarrow> string \<Rightarrow> error + status_response"
  postComment :: "string option \<Rightarrow> string \<Rightarrow> nat \<Rightarrow> string \<Rightarrow> error + string"
  hardware :: encoders
  spawn :: "string list \<Rightarrow> error + nat"
  randomUUID :: string
  utc_offset :: int

subsection \<open>More row access\<close>

definition get_page :: "db \<Rightarrow> string \<Rightarrow> page_row option" where
  "get_page d i = find (\<lambda>p. pid p = i) (pages d)"

definition get_video :: "db \<Rightarrow> string \<Rightarrow> video_row option" where
  "get_video d i = find (\<lambda>v. vid v = i) (videos d)"

definition update_page :: "string \<Rightarrow> (page_row \<Rightarrow> page_row) \<Rightarrow> db \<Rightarrow> db" where
  "update_page i f d = d\<lparr>pages := map (\<lambda>p. if pid p = i then f p else p) (pages d)\<rparr>"

text \<open>An insert into \<^verbatim>\<open>stream_sessions\<close>: the foreign key on \<^verbatim>\<open>job_id\<close> is enforced
  (\<^verbatim>\<open>foreign_keys = ON\<close>), and \<^verbatim>\<open>INSERT OR REPLACE\<close> first removes the row with the
  same primary key.\<close>

definition fk_error :: error where
  "fk_error = JsError ''FOREIGN KEY constraint failed'' None"

definition insert_session :: "session_row \<Rightarrow> db \<Rightarrow> error + db" where
  "insert_session row d =
     (if get_job d (job_id row) = None then Inl fk_error
      else Inr (d\<lparr>stream_sessions := stream_sessions d @ [row]\<rparr>))"

definition insert_or_replace_session :: "session_row \<Rightarrow> db \<Rightarrow> error + db" where
  "insert_or_replace_session row d =
     (if get_job d (job_id row) = None then Inl fk_error
      else Inr (d\<lparr>stream_sessions := filter (\<lambda>s. sid s \<noteq> sid row) (stream_sessions d) @ [row]\<rparr>))"

subsection \<open>\<^verbatim>\<open>withTokenRecovery\<close>\<close>

text \<open>\<^verbatim>\<open>e.response?.data?.error?.message || e.message\<close>, then the two substrings.\<close>

definition errorMsg :: "error \<Rightarrow> string" where
  "errorMsg e = str_or (response_message e) (message e)"

definition isExpired :: "error \<Rightarrow> bool" where
  "isExpired e =
     (str_includes (errorMsg e) ''Session has expired''
      \<or> str_includes (errorMsg e) ''Error validating access token'')"

text \<open>The body of \<^verbatim>\<open>for (const p of freshPages)\<close>: the accumulator is the database
  and \<^verbatim>\<open>newToken\<close>.\<close>

definition refresh_step :: "env \<Rightarrow> string \<Rightarrow> PageInfo \<Rightarrow> db \<times> string \<Rightarrow> db \<times> string" where
  "refresh_step ev pageId p acc =
     (let enc = encrypt ev (access_token p);
          d' = update_page (info_id p)
                 (\<lambda>r. r\<lparr>access_token_encrypted := ciphertext enc,
                        access_token_nonce := nonce enc,
                        access_token_tag := authTag enc\<rparr>) (fst acc)
      in (d', if info_id p = pageId then access_token p else snd acc))"

definition refresh_all :: "env \<Rightarrow> string \<Rightarrow> PageInfo list \<Rightarrow> db \<Rightarrow> db \<times> string" where
  "refresh_all ev pageId freshPages d = fold (refresh_step ev pageId) freshPages (d, [])"

text \<open>What the loop's \<^verbatim>\<open>UPDATE pages ... WHERE id = @id\<close> for the entry \<open>p\<close> does to one
  row.\<close>

definition store_token :: "env \<Rightarrow> PageInfo \<Rightarrow> page_row \<Rightarrow> page_row" where
  "store_token ev p r =
     (if pid r = info_id p
      then r\<lparr>access_token_encrypted := ciphertext (encrypt ev (access_token p)),
             access_token_nonce := nonce (encrypt ev (access_token p)),
             access_token_tag := authTag (encrypt ev (access_token p))\<rparr>
      else r)"

text \<open>\<^verbatim>\<open>nonce.value\<close> or \<^verbatim>\<open>tag.value\<close> of a setting that is not there.\<close>

definition type_error :: error where
  "type_error = undefined_read ''value''"

text \<open>The recovery branch, entered with the original error \<open>e\<close>. The result is what
  the wrapper returns or throws, the database, and the credentials the action was
  retried with.\<close>

definition recover :: "env \<Rightarrow> db \<Rightarrow> string \<Rightarrow> (nat \<Rightarrow> string \<Rightarrow> error + 'a) \<Rightarrow> error
                        \<Rightarrow> (error + 'a) \<times> db \<times> string list" where
  "recover ev d pageId action e =
     (case (settings d ''app_id'', settings d ''app_secret'', settings d ''user_token_encrypted'') of
        (Some dbAppId, Some dbAppSecret, Some encToken) \<Rightarrow>
          (case (settings d ''user_token_nonce'', settings d ''user_token_tag'') of
             (Some nc, Some tg) \<Rightarrow>
               (case decrypt ev encToken nc tg of
                  Inl decryptErr \<Rightarrow> (Inl decryptErr, d, [])
                | Inr userToken \<Rightarrow>
                    (case syncPageTokens ev dbAppId dbAppSecret userToken of
                       Inl recoveryErr \<Rightarrow> (Inl e, d, [])
                     | Inr freshPages \<Rightarrow>
                         (let (d', newToken) = refresh_all ev pageId freshPages d
                          in if newToken = [] then (Inl e, d', [])
                             else (case action 1 newToken of
                                     Inr r \<Rightarrow> (Inr r, d', [newToken])
                                   | Inl recoveryErr \<Rightarrow> (Inl e, d', [newToken])))))
           | _ \<Rightarrow> (Inl type_error, d, []))
      | _ \<Rightarrow> (Inl e, d, []))"

definition withTokenRecovery :: "env \<Rightarrow> db \<Rightarrow> string \<Rightarrow> (nat \<Rightarrow> string \<Rightarrow> error + 'a)
                                   \<Rightarrow> (error + 'a) \<times> db \<times> string list" where
  "withTokenRecovery ev d pageId action =
     (case get_page d pageId of
        None \<Rightarrow> (Inl (JsError (''Page '' @ pageId @ '' not found in database'') None), d, [])
      | Some page \<Rightarrow>
          (case decrypt ev (access_token_encrypted page) (access_token_nonce page)
                  (access_token_tag page) of
             Inl decryptErr \<Rightarrow> (Inl decryptErr, d, [])
           | Inr token \<Rightarrow>
               (case action 0 token of
                  Inr r \<Rightarrow> (Inr r, d, [token])
                | Inl e \<Rightarrow>
                    if isExpired e
                    then (let (res, d', retried) = recover ev d pageId action e
                          in (res, d', token # retried))
                    else (Inl e, d, [token]))))"

subsection \<open>\<^verbatim>\<open>processQueue\<close>: the admission query\<close>

text \<open>The column \<^verbatim>\<open>scheduled_time\<close> holds the text the job was created with, and
  \<^verbatim>\<open>CURRENT_TIMESTAMP\<close> is a text (\<^verbatim>\<open>YYYY-MM-DD HH:MM:SS\<close>, in UTC); \<^verbatim>\<open><=\<close> compares
  two texts byte by byte, a proper prefix being the smaller.\<close>

fun text_less :: "string \<Rightarrow> string \<Rightarrow> bool" where
  "text_less [] ys = (ys \<noteq> [])"
| "text_less (x # xs) [] = False"
| "text_less (x # xs) (y # ys) =
     ((of_char x :: nat) < of_char y \<or> (x = y \<and> text_less xs ys))"

definition text_le :: "string \<Rightarrow> string \<Rightarrow> bool" where
  "text_le a b = (a = b \<or> text_less a b)"

text \<open>The \<^verbatim>\<open>WHERE\<close> clause, \<open>current_timestamp\<close> being the text of the clock.\<close>

definition admissible :: "string \<Rightarrow> job_row \<Rightarrow> bool" where
  "admissible current_timestamp j =
     ((jstatus j = Queued \<or> jstatus j = Failed_recovery)
      \<and> (case scheduled_time j of None \<Rightarrow> True | Some t \<Rightarrow> text_le t current_timestamp)
      \<and> or_zero (recovery_attempts j) < MAX_RECOVERY_ATTEMPTS)"

text \<open>\<^verbatim>\<open>ORDER BY priority DESC, created_at ASC LIMIT ?\<close>: two stable sorts; rows equal
  in both keys stay in table order. The result is the list of jobs \<^verbatim>\<open>startStream\<close>
  is called with.\<close>

definition processQueue :: "string \<Rightarrow> orch \<Rightarrow> job_row list" where
  "processQueue now st =
     (if length (activeStreams st) \<ge> maxConcurrent then []
      else
        (let availableSlots = maxConcurrent - length (activeStreams st)
         in take availableSlots
              (sort_key (\<lambda>j. - priority j)
                 (sort_key created_at (filter (admissible now) (stream_queue (database st)))))))"

subsection \<open>\<^verbatim>\<open>stopStream\<close>\<close>

definition stopStream :: "nat \<Rightarrow> string \<Rightarrow> orch \<Rightarrow> orch" where
  "stopStream now jobId st =
     (let d1 = set_job_status jobId Stopping (database st)
      in case map_of (activeStreams st) jobId of
           Some child \<Rightarrow> st\<lparr>database := d1, signalled := signalled st @ [child]\<rparr>
         | None \<Rightarrow>
             st\<lparr>database :=
                  update_sessions (\<lambda>s. job_id s = jobId \<and> sstatus s = Live)
                    (\<lambda>s. s\<lparr>sstatus := Stopped, ended_at := Some now\<rparr>)
                    (set_job_status jobId Stopped d1)\<rparr>)"

subsection \<open>\<^verbatim>\<open>pollViewerStats\<close>\<close>

text \<open>The rows of the join of live sessions, at least 30 seconds old, with their jobs.\<close>

definition activeSessions :: "nat \<Rightarrow> db \<Rightarrow> (session_row \<times> job_row) list" where
  "activeSessions now d =
     concat (map (\<lambda>s. case get_job d (job_id s) of
                         None \<Rightarrow> []
                       | Some q \<Rightarrow> (if sstatus s = Live \<and> started_at s + 30 \<le> now then [(s, q)] else []))
               (stream_sessions d))"

text \<open>Part 2 of the loop body: the auto-comment. \<^verbatim>\<open>started_at\<close> is a UTC text without
  a zone, which \<^verbatim>\<open>new Date\<close> reads as local time, so the age it computes is off by the
  offset of the zone.\<close>

definition auto_comment :: "env \<Rightarrow> nat \<Rightarrow> session_row \<times> job_row \<Rightarrow> orch \<Rightarrow> orch" where
  "auto_comment ev now sq st =
     (let session = fst sq; q = snd sq
      in if str_or (first_comment q) [] \<noteq> [] \<and> comment_posted session = Some 0
            \<and> int now - int (started_at session) + utc_offset ev > 15
         then
           (let targetId = (if str_or (vod_video_id session) [] \<noteq> [] then vod_video_id session
                            else live_video_id session)
            in case withTokenRecovery ev (database st) (page_id q)
                      (postComment ev targetId (the (first_comment q))) of
                 (Inr commentId, d', tokens) \<Rightarrow>
                   st\<lparr>database := update_sessions (\<lambda>s. sid s = sid session)
                                    (\<lambda>s. s\<lparr>comment_posted := Some 1\<rparr>) d'\<rparr>
               | (Inl commentError, d', tokens) \<Rightarrow> st\<lparr>database := d'\<rparr>)
         else st)"

text \<open>The loop body for one row \<open>sq\<close> of the snapshot: part 1 is the viewer count and
  liveness check, with the failure counter and the circuit breaker.\<close>

definition poll_session :: "env \<Rightarrow> nat \<Rightarrow> session_row \<times> job_row \<Rightarrow> orch \<Rightarrow> orch" where
  "poll_session ev now sq st =
     (let session = fst sq; q = snd sq
      in case get_page (database st) (page_id q) of
           None \<Rightarrow> st
         | Some page \<Rightarrow>
             (case withTokenRecovery ev (database st) (page_id q)
                     (getLiveStatus ev (live_video_id session)) of
                (Inr response, d1, tokens) \<Rightarrow>
                  (let viewers = or_zero (live_views response);
                       d2 = update_sessions (\<lambda>s. sid s = sid session)
                              (\<lambda>s. s\<lparr>api_fail_count := Some 0\<rparr>) d1
                   in if fb_status response \<noteq> ''LIVE'' \<and> fb_status response \<noteq> ''LIVE_NOW''
                      then stopStream now (job_id session) (st\<lparr>database := d2\<rparr>)
                      else
                        auto_comment ev now sq
                          (st\<lparr>database :=
                                update_sessions (\<lambda>s. sid s = sid session)
                                  (\<lambda>s. s\<lparr>peak_viewers :=
                                           map_option (\<lambda>pv. max pv viewers) (peak_viewers s)\<rparr>) d2\<rparr>))
              | (Inl e, d1, tokens) \<Rightarrow>
                  (let currentFailCount = or_zero (api_fail_count session) + 1;
                       d2 = update_sessions (\<lambda>s. sid s = sid session)
                              (\<lambda>s. s\<lparr>api_fail_count := Some currentFailCount\<rparr>) d1
                   in if currentFailCount \<ge> MAX_API_FAILURES
                      then stopStream now (job_id session)
                             (st\<lparr>database := set_job_status (job_id session) Circuit_breaker d2\<rparr>)
                      else auto_comment ev now sq (st\<lparr>database := d2\<rparr>))))"

definition pollViewerStats :: "env \<Rightarrow> nat \<Rightarrow> orch \<Rightarrow> orch" where
  "pollViewerStats ev now st =
     (if settings (database st) ''app_id'' = None \<or> settings (database st) ''app_secret'' = None
      then st
      else fold (poll_session ev now) (activeSessions now (database st)) st)"

subsection \<open>\<^verbatim>\<open>startStream\<close>\<close>

text \<open>What a start leaves behind besides the state: whether an exception escaped,
  the remote broadcasts requested (credential, title, description of every
  \<^verbatim>\<open>createLiveVideo\<close> call, in order) and the arguments \<^verbatim>\<open>spawn\<close> was called with
  (\<open>None\<close> when the start did not get that far).\<close>

record start_log =
  escaped :: "error option"
  create_calls :: "(string \<times> string \<times> string) list"
  spawned :: "string list option"

text \<open>The local variables \<^verbatim>\<open>liveVideoId\<close>, \<^verbatim>\<open>vodVideoId\<close> and \<^verbatim>\<open>stream_url\<close> hold a
  text or nothing: \<^verbatim>\<open>null\<close> when read from a NULL column, \<^verbatim>\<open>undefined\<close> when never
  assigned or absent from the remote answer.\<close>

datatype jsval = JsUndefined | JsNull | JsString string

definition of_column :: "string option \<Rightarrow> jsval" where
  "of_column c = (case c of None \<Rightarrow> JsNull | Some s \<Rightarrow> JsString s)"

definition of_field :: "string option \<Rightarrow> jsval" where
  "of_field f = (case f of None \<Rightarrow> JsUndefined | Some s \<Rightarrow> JsString s)"

text \<open>Bound to a parameter of a statement, \<^verbatim>\<open>null\<close> and \<^verbatim>\<open>undefined\<close> are both NULL;
  \<^verbatim>\<open>v || null\<close> makes the empty text NULL as well. As an element of the argument
  array of \<^verbatim>\<open>spawn\<close>, which does not check the elements, a value reaches the process
  as its text.\<close>

definition to_column :: "jsval \<Rightarrow> string option" where
  "to_column v = (case v of JsString s \<Rightarrow> Some s | _ \<Rightarrow> None)"

definition or_null :: "jsval \<Rightarrow> string option" where
  "or_null v = (case v of JsString s \<Rightarrow> (if s = [] then None else Some s) | _ \<Rightarrow> None)"

definition to_arg :: "jsval \<Rightarrow> string" where
  "to_arg v = (case v of JsString s \<Rightarrow> s | JsNull \<Rightarrow> ''null'' | JsUndefined \<Rightarrow> ''undefined'')"

text \<open>The most recent session of the job with status live, failed or stopped
  (\<^verbatim>\<open>ORDER BY started_at DESC LIMIT 1\<close>; among equal times the first row).\<close>

definition later_session :: "session_row \<Rightarrow> session_row option \<Rightarrow> session_row option" where
  "later_session s best =
     (case best of None \<Rightarrow> Some s
      | Some b \<Rightarrow> (if started_at s > started_at b then Some s else Some b))"

definition existingSession :: "db \<Rightarrow> string \<Rightarrow> session_row option" where
  "existingSession d i =
     fold later_session
       (filter (\<lambda>s. job_id s = i \<and> (sstatus s = Live \<or> sstatus s = Failed \<or> sstatus s = Stopped))
          (stream_sessions d)) None"

text \<open>The active content item: \<^verbatim>\<open>playlist[videoIndex % playlist.length]\<close> when a
  playlist exists (\<open>None\<close> for the \<^verbatim>\<open>undefined\<close> read from an empty one), else the
  primary video.\<close>

definition current_videoId :: "job_row \<Rightarrow> nat \<Rightarrow> string option" where
  "current_videoId job videoIndex =
     (case playlist job of
        None \<Rightarrow> Some (video_id job)
      | Some pl \<Rightarrow> (if pl = [] then None else Some (pl ! (videoIndex mod length pl))))"

definition reuse_session :: "db \<Rightarrow> job_row \<Rightarrow> nat \<Rightarrow> bool" where
  "reuse_session d job videoIndex =
     (existingSession d (jid job) \<noteq> None
      \<and> (videoIndex > 0 \<or> or_zero (recovery_attempts job) > 0))"

definition broadcast_title :: "job_row \<Rightarrow> video_row \<Rightarrow> string" where
  "broadcast_title job video = str_or (title_template job) (''Live: '' @ filename video)"

definition broadcast_description :: "job_row \<Rightarrow> string" where
  "broadcast_description job = str_or (description_template job) ''Bulk Streamer Live''"

definition shouldLoopFfmpeg :: "job_row \<Rightarrow> bool" where
  "shouldLoopFfmpeg job =
     ((case playlist job of None \<Rightarrow> True | Some pl \<Rightarrow> length pl = 1) \<and> loop job = 1)"

definition job_builder :: "env \<Rightarrow> db \<Rightarrow> job_row \<Rightarrow> video_row \<Rightarrow> builder" where
  "job_builder ev d job video =
     (let b = new_builder (path video)
      in case editing_profile_id job of
           None \<Rightarrow> b
         | Some pf \<Rightarrow>
             (if pf = [] then b
              else (case editing_profiles d pf of
                      Some (Some profileData) \<Rightarrow> applyProfile (runtime ev) profileData b
                    | _ \<Rightarrow> b)))"

text \<open>Step 3, the arguments of the process: the builder of the content file with the
  job's editing profile applied, compiled for the ingest URL.\<close>

definition stream_args :: "env \<Rightarrow> db \<Rightarrow> job_row \<Rightarrow> video_row \<Rightarrow> string \<Rightarrow> string list" where
  "stream_args ev d job video url =
     forStreaming (runtime ev) (getBestEncoder (hardware ev)) url
       (Some (shouldLoopFfmpeg job)) (job_builder ev d job video)"

definition new_session :: "env \<Rightarrow> nat \<Rightarrow> job_row \<Rightarrow> jsval \<Rightarrow> jsval \<Rightarrow> jsval \<Rightarrow> session_row" where
  "new_session ev now job liveVideoId vodVideoId url =
     \<lparr>sid = randomUUID ev, job_id = jid job, live_video_id = to_column liveVideoId,
      vod_video_id = or_null vodVideoId,
      stream_url = to_column url, started_at = now, ended_at = None, sstatus = Live,
      peak_viewers = None, current_video_index = Some 0, comment_posted = Some 0,
      api_fail_count = Some 0, error_log = None\<rparr>"

definition failed_session :: "nat \<Rightarrow> job_row \<Rightarrow> error \<Rightarrow> session_row" where
  "failed_session now job e =
     \<lparr>sid = jid job, job_id = jid job, live_video_id = None, vod_video_id = None,
      stream_url = None, started_at = now, ended_at = Some now, sstatus = Failed,
      peak_viewers = None, current_video_index = Some 0, comment_posted = Some 0,
      api_fail_count = Some 0, error_log = Some (if message e = [] then ''Error'' else message e)\<rparr>"

text \<open>Steps 3 to 9, from the command on, given the resolved broadcast and the database
  \<open>d\<close> after the remote call. \<open>Inl\<close> is an exception, with the state reached and the
  arguments \<^verbatim>\<open>spawn\<close> was called with.\<close>

definition spawn_and_record :: "env \<Rightarrow> nat \<Rightarrow> orch \<Rightarrow> db \<Rightarrow> job_row \<Rightarrow> nat \<Rightarrow> video_row
       \<Rightarrow> jsval \<Rightarrow> jsval \<Rightarrow> jsval
       \<Rightarrow> (error \<times> orch \<times> string list option) + (orch \<times> string list)" where
  "spawn_and_record ev now st d job videoIndex video liveVideoId vodVideoId url =
     (let args = stream_args ev d job video (to_arg url)
      in case spawn ev args of
           Inl e \<Rightarrow> Inl (e, st\<lparr>database := d\<rparr>, Some args)
         | Inr child \<Rightarrow>
             (let st1 = st\<lparr>database := d,
                          activeStreams := AList.update (jid job) child (activeStreams st)\<rparr>
              in if videoIndex = 0 then
                   (case insert_session (new_session ev now job liveVideoId vodVideoId url) d of
                      Inl e \<Rightarrow> Inl (e, st1, Some args)
                    | Inr d1 \<Rightarrow>
                        Inr (st1\<lparr>database := set_job_status (jid job) Live d1\<rparr>, args))
                 else
                   Inr (st1\<lparr>database :=
                              set_job_status (jid job) Live
                                (update_sessions (\<lambda>s. job_id s = jid job)
                                   (\<lambda>s. s\<lparr>sstatus := Live,
                                          current_video_index := Some (int videoIndex)\<rparr>) d)\<rparr>,
                        args)))"

text \<open>Step 2 of the \<^verbatim>\<open>try\<close> block, ``Resolve Live Video (Reuse or Create)'': the
  result is the exception thrown or \<^verbatim>\<open>liveVideoId\<close>, \<^verbatim>\<open>vodVideoId\<close> and
  \<^verbatim>\<open>stream_url\<close>, then the database after the remote call and the
  \<^verbatim>\<open>createLiveVideo\<close> calls made.\<close>

definition resolve_broadcast :: "env \<Rightarrow> db \<Rightarrow> job_row \<Rightarrow> nat \<Rightarrow> page_row \<Rightarrow> video_row
       \<Rightarrow> (error + jsval \<times> jsval \<times> jsval) \<times> db
            \<times> (string \<times> string \<times> string) list" where
  "resolve_broadcast ev d job videoIndex page video =
     (if reuse_session d job videoIndex then
        (let existing = the (existingSession d (jid job))
         in (Inr (of_column (live_video_id existing), JsUndefined,
                  of_column (stream_url existing)), d, []))
      else
        (let title = broadcast_title job video;
             description = broadcast_description job
         in case withTokenRecovery ev d (pid page)
                   (createLiveVideo ev (pid page) title description) of
              (Inl e, d1, tokens) \<Rightarrow> (Inl e, d1, map (\<lambda>t. (t, title, description)) tokens)
            | (Inr fbResult, d1, tokens) \<Rightarrow>
                (Inr (JsString (lv_id fbResult), of_field (lv_video_id fbResult),
                      of_field (lv_stream_url fbResult)), d1,
                 map (\<lambda>t. (t, title, description)) tokens)))"

text \<open>The \<^verbatim>\<open>try\<close> block: data lookup, broadcast resolution, then the rest. The result
  carries the \<^verbatim>\<open>createLiveVideo\<close> calls made.\<close>

definition try_start :: "env \<Rightarrow> nat \<Rightarrow> orch \<Rightarrow> job_row \<Rightarrow> nat
       \<Rightarrow> ((error \<times> orch \<times> string list option) + (orch \<times> string list))
            \<times> (string \<times> string \<times> string) list" where
  "try_start ev now st job videoIndex =
     (let d = database st in
      case (get_page d (page_id job),
            (case current_videoId job videoIndex of None \<Rightarrow> None | Some v \<Rightarrow> get_video d v),
            settings d ''app_id'', settings d ''app_secret'') of
        (Some page, Some video, Some appId, Some appSecret) \<Rightarrow>
          (case resolve_broadcast ev d job videoIndex page video of
             (Inl e, d1, calls) \<Rightarrow> (Inl (e, st\<lparr>database := d1\<rparr>, None), calls)
           | (Inr (liveVideoId, vodVideoId, url), d1, calls) \<Rightarrow>
               (spawn_and_record ev now st d1 job videoIndex video liveVideoId vodVideoId url,
                calls))
      | _ \<Rightarrow> (Inl (JsError ''Missing stream components'' None, st, None), []))"

definition startStream :: "env \<Rightarrow> nat \<Rightarrow> orch \<Rightarrow> job_row \<Rightarrow> nat \<Rightarrow> orch \<times> start_log" where
  "startStream ev now st job videoIndex =
     (let st0 = st\<lparr>database := set_job_status (jid job) Starting (database st)\<rparr>
      in case try_start ev now st0 job videoIndex of
           (Inr (st1, args), calls) \<Rightarrow>
             (st1, \<lparr>escaped = None, create_calls = calls, spawned = Some args\<rparr>)
         | (Inl (e, st1, sp), calls) \<Rightarrow>
             (let d1 = set_job_status (jid job) Failed (database st1)
              in case insert_or_replace_session (failed_session now job e) d1 of
                   Inr d2 \<Rightarrow>
                     (st1\<lparr>database := d2\<rparr>, \<lparr>escaped = None, create_calls = calls, spawned = sp\<rparr>)
                 | Inl e2 \<Rightarrow>
                     (st1\<lparr>database := d1\<rparr>,
                      \<lparr>escaped = Some e2, create_calls = calls, spawned = sp\<rparr>)))"

section \<open>The specification's decision table for a successful exit\<close>

text \<open>The loop modes of the specification, and the persisted integer of each.\<close>

datatype loop_mode = Off | LoopAll | LoopOne

definition loop_mode_of :: "int \<Rightarrow> loop_mode option" where
  "loop_mode_of n =
     (if n = 0 then Some Off else if n = 1 then Some LoopAll
      else if n = 2 then Some LoopOne else None)"

datatype exit_decision = RestartAt nat | TerminalStopped

text \<open>The table as the specification words it; \<open>len\<close> is the length of the playlist
  (0 when the job has none), a multi-item playlist has more than one item.\<close>

definition spec_exit_decision :: "loop_mode \<Rightarrow> nat \<Rightarrow> nat \<Rightarrow> exit_decision" where
  "spec_exit_decision m len index =
     (if len > 1 then
        (if m = LoopOne then RestartAt index
         else if index + 1 < len then RestartAt (index + 1)
         else if m = LoopAll then RestartAt 0
         else TerminalStopped)
      else (if m = LoopAll \<or> m = LoopOne then RestartAt 0 else TerminalStopped))"

section \<open>The specification's rule for reusing a broadcast\<close>




section \<open>Example data\<close>

definition example_job :: job_row where
  "example_job =
     \<lparr>jid = ''job1'', page_id = ''page1'', video_id = ''v1'', editing_profile_id = None,
      title_template = None, description_template = None, scheduled_time = None,
      jstatus = Live, priority = 1, loop = 1, playlist = Some [''v1'', ''v2'', ''v3''],
      first_comment = None, recovery_attempts = Some 2, created_at = 10\<rparr>"

definition example_job2 :: job_row where
  "example_job2 = example_job\<lparr>jid := ''job2'', jstatus := Queued, recovery_attempts := Some 1\<rparr>"

definition example_job3 :: job_row where
  "example_job3 =
     example_job\<lparr>jid := ''job3'', jstatus := Failed_recovery, recovery_attempts := Some 3\<rparr>"

definition example_session :: session_row where
  "example_session =
     \<lparr>sid = ''s1'', job_id = ''job1'', live_video_id = Some ''lv1'', vod_video_id = None,
      stream_url = Some ''rtmps://ingest/1'', started_at = 20, ended_at = None, sstatus = Live,
      peak_viewers = None, current_video_index = Some 0, comment_posted = Some 0,
      api_fail_count = Some 4, error_log = None\<rparr>"

definition example_page :: page_row where
  "example_page =
     \<lparr>pid = ''page1'', access_token_encrypted = ''c-old'', access_token_nonce = ''n'',
      access_token_tag = ''t''\<rparr>"

definition example_page2 :: page_row where
  "example_page2 =
     \<lparr>pid = ''page2'', access_token_encrypted = ''c-old2'', access_token_nonce = ''n'',
      access_token_tag = ''t''\<rparr>"

definition example_video :: video_row where
  "example_video = \<lparr>vid = ''v1'', filename = ''clip.mp4'', path = ''/media/clip.mp4''\<rparr>"

definition example_db :: db where
  "example_db =
     \<lparr>stream_queue = [example_job, example_job2, example_job3],
      stream_sessions = [example_session],
      pages = [example_page, example_page2], videos = [example_video],
      editing_profiles = Map.empty,
      settings = [''app_id'' \<mapsto> ''id'', ''app_secret'' \<mapsto> ''secret'',
                  ''user_token_encrypted'' \<mapsto> ''c-user'', ''user_token_nonce'' \<mapsto> ''n'',
                  ''user_token_tag'' \<mapsto> ''t'']\<rparr>"

definition example_orch :: orch where
  "example_orch = \<lparr>database = example_db, activeStreams = [(''job1'', 7)], signalled = []\<rparr>"

text \<open>The same state after the user asked to stop the first job.\<close>

definition example_stopping :: orch where
  "example_stopping =
     example_orch\<lparr>database := set_job_status ''job1'' Stopping example_db\<rparr>"

text \<open>The editing profile with nothing set.\<close>

definition example_profile :: ProfileData where
  "example_profile =
     \<lparr>crop = None, offset = None, rotate_angle = None, flip = None, scale = None,
      aspectRatio = None, trim = None, profile_loop = None, color = None, zoom = None,
      background = None, overlays = [], speed = None, audio = None, protection = None\<rparr>"

text \<open>A profile with an image background and no overlay, and the same with one image
  overlay.\<close>

definition example_bg_profile :: ProfileData where
  "example_bg_profile =
     example_profile\<lparr>background := Some \<lparr>bg_type = Image, bg_imagePath = Some ''bg.png''\<rparr>\<rparr>"

definition example_logo :: overlay_t where
  "example_logo =
     \<lparr>ov_type = ImageOverlay, ov_content = Some ''logo.png'', ov_x = Num 0, ov_y = Num 0,
      ov_opacity = 1, ov_size = Some 100, ov_color = None, bannerColor = None,
      bannerOpacity = None, bannerPadding = None, shadow = None, outline = None, font = None,
      animation = None\<rparr>"

definition example_bg_logo_profile :: ProfileData where
  "example_bg_logo_profile = example_bg_profile\<lparr>overlays := [example_logo]\<rparr>"

text \<open>The layout graph of both, as \<^verbatim>\<open>applyProfile\<close> leaves it.\<close>

definition example_bg_graph :: string where
  "example_bg_graph = ''split=1[fg_src];[bg_img]scale=1920:1080:force_original_aspect_ratio=increase,crop=1920:1080[bg];[fg_src]scale=iw*1:ih*1,scale=w=1920:h=1080:force_original_aspect_ratio=decrease[fg];[bg][fg]overlay=(W-w)/2+(0*W/100):(H-h)/2+(0*H/100)''"

text \<open>A protection descriptor: subtle noise, triggered on one frame in thirty.\<close>

definition example_noise :: protection_t where
  "example_noise =
     \<lparr>ptype = Subtle_noise, mode = Some Frame, interval = 30, duration = None,
      strength = None, injectionFrames = Some 1, imagePath = None\<rparr>"

text \<open>The state after the queue was cleared (the sessions go with their jobs), with
  no process supervised.\<close>

definition example_cleared :: orch where
  "example_cleared =
     \<lparr>database = example_db\<lparr>stream_queue := [], stream_sessions := []\<rparr>,
      activeStreams = [], signalled = []\<rparr>"

text \<open>Collaborators for the examples: the vault decrypts \<open>c\<close> to \<open>tok:c\<close>, the
  account-level refresh returns two destinations, broadcast creation succeeds, and the
  status query fails with a network error. The examples print integers only, so the
  printing of other numbers is not exercised, and their runtime rounds no product.\<close>

definition example_js :: js_env where
  "example_js = \<lparr>fmt = (\<lambda>r. ''?''), parseNumber = (\<lambda>s. None), fl = (\<lambda>r. r)\<rparr>"

definition example_batch :: "PageInfo list" where
  "example_batch = [\<lparr>info_id = ''page1'', access_token = ''fresh1''\<rparr>,
                    \<lparr>info_id = ''page2'', access_token = ''fresh2''\<rparr>]"

definition example_env :: env where
  "example_env =
     \<lparr>runtime = example_js,
      decrypt = (\<lambda>c n t. Inr (''tok:'' @ c)),
      encrypt = (\<lambda>p. \<lparr>ciphertext = ''enc:'' @ p, nonce = ''n2'', authTag = ''t2''\<rparr>),
      syncPageTokens = (\<lambda>a s u. Inr example_batch),
      createLiveVideo = (\<lambda>pg title description k t.
         Inr \<lparr>lv_id = ''lv-new'', lv_video_id = Some ''vod-new'',
              lv_stream_url = Some ''rtmps://ingest/new''\<rparr>),
      getLiveStatus = (\<lambda>lv k t. Inl (JsError ''Network Error'' None)),
      postComment = (\<lambda>target msg k t. Inr ''comment-1''),
      hardware = \<lparr>nvenc = False, qsv = False, amf = False, vaapi = False\<rparr>,
      spawn = (\<lambda>args. Inr 8),
      randomUUID = ''uuid-1'',
      utc_offset = 0\<rparr>"



text \<open>A remote call that rejects every credential but the refreshed one of the first
  page as expired.\<close>

definition example_expired :: error where
  "example_expired = JsError ''Request failed with status code 400''
     (Some ''Error validating access token: Session has expired'')"

definition example_action :: "nat \<Rightarrow> string \<Rightarrow> error + string" where
  "example_action k t = (if t = ''fresh1'' then Inr ''ok'' else Inl example_expired)"

section \<open>Properties of the exit handler\<close>

lemma get_job_update_job:
  assumes "\<And>j. jid (f j) = jid j"
  shows "get_job (update_job i f d) i = map_option f (get_job d i)"
proof -
  have "find (\<lambda>j. jid j = i) (map (\<lambda>j. if jid j = i then f j else j) xs)
         = map_option f (find (\<lambda>j. jid j = i) xs)" for xs
    by (induction xs) (auto simp: assms)
  then show ?thesis by (simp add: get_job_def update_job_def)
qed

lemma get_job_update_sessions [simp]:
  "get_job (update_sessions P f d) i = get_job d i"
  by (simp add: get_job_def update_sessions_def)

lemma set_update_sessions:
  "set (stream_sessions (update_sessions P f d))
     = (\<lambda>s. if P s then f s else s) ` set (stream_sessions d)"
  by (simp add: update_sessions_def)

lemma sessions_set_job_status [simp]:
  "stream_sessions (set_job_status i st d) = stream_sessions d"
  by (simp add: set_job_status_def update_job_def)

lemma get_job_set_job_status:
  "get_job (set_job_status i st d) i = map_option (\<lambda>j. j\<lparr>jstatus := st\<rparr>) (get_job d i)"
  by (simp add: set_job_status_def get_job_update_job)

lemma job_after_finalize:
  "get_job d i = Some cj \<Longrightarrow>
     get_job (finalize_stopped now i d) i = Some (cj\<lparr>jstatus := Stopped\<rparr>)"
  by (simp add: finalize_stopped_def get_job_set_job_status)

lemma sessions_after_finalize:
  assumes "s \<in> set (stream_sessions (finalize_stopped now i d))" and "job_id s = i"
  shows "sstatus s = Stopped"
proof -
  from assms(1) obtain x
    where x: "s = (if job_id x = i then x\<lparr>sstatus := Stopped, ended_at := Some now\<rparr> else x)"
    unfolding finalize_stopped_def set_update_sessions by blast
  show ?thesis
  proof (cases "job_id x = i")
    case True
    then show ?thesis using x by simp
  next
    case False
    then show ?thesis using x assms(2) by simp
  qed
qed

text \<open>The handler on a successful exit of a job that is not stopping, as one
  conditional.\<close>

lemma on_close_success:
  assumes "get_job (database st) i = Some cj" and "jstatus cj \<noteq> Stopping"
  shows "on_close now st i videoIndex (Some 0) =
     (let st1 = st\<lparr>activeStreams := AList.delete i (activeStreams st)\<rparr> in
      if hasPlaylist (playlist cj) then
        (if loop cj = 2 then (st1, Inr (Some videoIndex))
         else if videoIndex + 1 < playlist_length (playlist cj)
           then (st1, Inr (Some (videoIndex + 1)))
         else if loop cj = 1 then (st1, Inr (Some 0))
         else (st1\<lparr>database := finalize_stopped now i (database st)\<rparr>, Inr None))
      else if loop cj \<ge> 1 then (st1, Inr (Some 0))
      else (st1\<lparr>database := finalize_stopped now i (database st)\<rparr>, Inr None))"
  using assms by (simp add: on_close_def Let_def)

text \<open>
  Claim C1. When the process of a job exits with code 0 and the job (whose loop
  column holds one of the three loop modes) is not in status stopping, the exit handler
  calls \<^verbatim>\<open>startStream\<close> with the index of the specification's decision table, having
  written nothing to the database before that call; where the table says stopped, the
  handler restarts nothing and the job and each of its sessions have status stopped.
\<close>

theorem exit_handler_decision_table:
  assumes "get_job (database st) i = Some cj"
    and "jstatus cj \<noteq> Stopping"
    and "loop_mode_of (loop cj) = Some m"
  shows "case spec_exit_decision m (playlist_length (playlist cj)) videoIndex of
           RestartAt k \<Rightarrow>
             snd (on_close now st i videoIndex (Some 0)) = Inr (Some k)
             \<and> database (fst (on_close now st i videoIndex (Some 0))) = database st
         | TerminalStopped \<Rightarrow>
             snd (on_close now st i videoIndex (Some 0)) = Inr None
             \<and> map_option jstatus (get_job (database (fst (on_close now st i videoIndex (Some 0)))) i)
                 = Some Stopped
             \<and> (\<forall>s \<in> set (stream_sessions (database (fst (on_close now st i videoIndex (Some 0))))).
                   job_id s = i \<longrightarrow> sstatus s = Stopped)"
proof -
  have lm: "loop cj = 0 \<and> m = Off \<or> loop cj = 1 \<and> m = LoopAll \<or> loop cj = 2 \<and> m = LoopOne"
    using assms(3) by (auto simp: loop_mode_of_def split: if_splits)
  have fin: "map_option jstatus (get_job (finalize_stopped now i (database st)) i) = Some Stopped"
    using job_after_finalize[OF assms(1)] by simp
  have ses: "\<forall>s \<in> set (stream_sessions (finalize_stopped now i (database st))).
               job_id s = i \<longrightarrow> sstatus s = Stopped"
    using sessions_after_finalize by blast
  note oc = on_close_success[OF assms(1,2)]
  have hp: "hasPlaylist (playlist cj) = (playlist_length (playlist cj) > 1)"
    by (simp add: hasPlaylist_def playlist_length_def split: option.splits)
  show ?thesis
  proof (cases "spec_exit_decision m (playlist_length (playlist cj)) videoIndex")
    case (RestartAt k)
    then have "on_close now st i videoIndex (Some 0) =
                 (st\<lparr>activeStreams := AList.delete i (activeStreams st)\<rparr>, Inr (Some k))"
      using lm unfolding oc hp spec_exit_decision_def Let_def
      by (auto split: if_splits)
    then show ?thesis using RestartAt by simp
  next
    case TerminalStopped
    then have "on_close now st i videoIndex (Some 0) =
                 (st\<lparr>activeStreams := AList.delete i (activeStreams st),
                     database := finalize_stopped now i (database st)\<rparr>, Inr None)"
      using lm unfolding oc hp spec_exit_decision_def Let_def
      by (auto split: if_splits)
    then show ?thesis using TerminalStopped fin ses by simp
  qed
qed

text \<open>A three-item playlist with LoopAll at index 2 wraps to index 0.\<close>

theorem exit_handler_decision_table_witness:
  "get_job (database example_orch) ''job1'' = Some example_job
   \<and> jstatus example_job \<noteq> Stopping
   \<and> loop_mode_of (loop example_job) = Some LoopAll
   \<and> spec_exit_decision LoopAll (playlist_length (playlist example_job)) 2 = RestartAt 0
   \<and> snd (on_close 100 example_orch ''job1'' 2 (Some 0)) = Inr (Some 0)
   \<and> database (fst (on_close 100 example_orch ''job1'' 2 (Some 0))) = database example_orch"
proof -
  have h1: "get_job (database example_orch) ''job1'' = Some example_job"
    by (simp add: example_orch_def example_db_def get_job_def example_job_def)
  have h2: "jstatus example_job \<noteq> Stopping"
    by (simp add: example_job_def)
  have h3: "loop_mode_of (loop example_job) = Some LoopAll"
    by (simp add: example_job_def loop_mode_of_def)
  have d: "spec_exit_decision LoopAll (playlist_length (playlist example_job)) 2 = RestartAt 0"
    by (simp add: spec_exit_decision_def playlist_length_def example_job_def)
  show ?thesis
    using exit_handler_decision_table[OF h1 h2 h3, where videoIndex = 2 and now = 100] h1 h2 h3 d
    by simp
qed

lemma on_close_failure:
  assumes "get_job (database st) i = Some cj" and "jstatus cj \<noteq> Stopping" and "code \<noteq> Some 0"
  shows "database (fst (on_close now st i videoIndex code)) =
     update_sessions (\<lambda>s. job_id s = i)
       (\<lambda>s. s\<lparr>sstatus := Failed,
              error_log := Some (''Process exited with code '' @ code_str code)\<rparr>)
       (update_job i (\<lambda>j. j\<lparr>jstatus := (if or_zero (recovery_attempts cj) + 1 \<ge> MAX_RECOVERY_ATTEMPTS
                                         then Failed else Failed_recovery),
                            recovery_attempts := Some (or_zero (recovery_attempts cj) + 1)\<rparr>)
          (database st))"
  using assms by (simp add: on_close_def Let_def)

lemma on_close_stopping:
  assumes "get_job (database st) i = Some cj" and "jstatus cj = Stopping"
  shows "database (fst (on_close now st i videoIndex code)) = finalize_stopped now i (database st)"
  using assms by (simp add: on_close_def Let_def)

lemma on_close_success_db:
  assumes "get_job (database st) i = Some cj" and "jstatus cj \<noteq> Stopping"
  shows "database (fst (on_close now st i videoIndex (Some 0))) = database st
       \<or> database (fst (on_close now st i videoIndex (Some 0))) = finalize_stopped now i (database st)"
  unfolding on_close_success[OF assms] Let_def by simp

lemma processQueue_subset:
  "set (processQueue now st) \<subseteq> {j \<in> set (stream_queue (database st)). admissible now j}"
proof -
  have "set (take n (sort_key f (sort_key g (filter P xs)))) \<subseteq> {x \<in> set xs. P x}"
    for n and f :: "job_row \<Rightarrow> int" and g :: "job_row \<Rightarrow> nat" and P xs
    using set_take_subset[of n "sort_key f (sort_key g (filter P xs))"] by auto
  then show ?thesis by (auto simp: processQueue_def Let_def)
qed

text \<open>
  Claim C2, amended. For a job that is not in status stopping, every exit with a code
  other than 0 (or with no code) increments \<open>recovery_attempts\<close> by one, and the job
  becomes failed when the incremented counter is at least \<open>MAX_RECOVERY_ATTEMPTS\<close>
  (which is 3) and failed_recovery otherwise; the exit of a stopping job and a
  successful exit leave the counter as it is; the admission query selects no job whose
  counter is at or above the maximum.
\<close>

theorem recovery_attempts_bounded_retry:
  assumes "get_job (database st) i = Some cj"
  shows "(jstatus cj \<noteq> Stopping \<and> code \<noteq> Some 0 \<longrightarrow>
            map_option recovery_attempts (get_job (database (fst (on_close now st i videoIndex code))) i)
              = Some (Some (or_zero (recovery_attempts cj) + 1))
            \<and> map_option jstatus (get_job (database (fst (on_close now st i videoIndex code))) i)
              = Some (if or_zero (recovery_attempts cj) + 1 \<ge> MAX_RECOVERY_ATTEMPTS
                      then Failed else Failed_recovery))
       \<and> (jstatus cj = Stopping \<or> code = Some 0 \<longrightarrow>
            map_option recovery_attempts (get_job (database (fst (on_close now st i videoIndex code))) i)
              = Some (recovery_attempts cj))
       \<and> (\<forall>j \<in> set (processQueue current_timestamp st). or_zero (recovery_attempts j) < MAX_RECOVERY_ATTEMPTS)
       \<and> MAX_RECOVERY_ATTEMPTS = 3"
proof -
  have fin: "map_option recovery_attempts (get_job (finalize_stopped now i (database st)) i)
               = Some (recovery_attempts cj)"
    using job_after_finalize[OF assms] by simp
  have a: "jstatus cj \<noteq> Stopping \<and> code \<noteq> Some 0 \<longrightarrow>
            map_option recovery_attempts (get_job (database (fst (on_close now st i videoIndex code))) i)
              = Some (Some (or_zero (recovery_attempts cj) + 1))
            \<and> map_option jstatus (get_job (database (fst (on_close now st i videoIndex code))) i)
              = Some (if or_zero (recovery_attempts cj) + 1 \<ge> MAX_RECOVERY_ATTEMPTS
                      then Failed else Failed_recovery)"
  proof (intro impI, elim conjE)
    assume h: "jstatus cj \<noteq> Stopping" "code \<noteq> Some 0"
    show "map_option recovery_attempts (get_job (database (fst (on_close now st i videoIndex code))) i)
              = Some (Some (or_zero (recovery_attempts cj) + 1))
            \<and> map_option jstatus (get_job (database (fst (on_close now st i videoIndex code))) i)
              = Some (if or_zero (recovery_attempts cj) + 1 \<ge> MAX_RECOVERY_ATTEMPTS
                      then Failed else Failed_recovery)"
      unfolding on_close_failure[OF assms h]
      by (simp add: get_job_update_job assms)
  qed
  have b: "jstatus cj = Stopping \<or> code = Some 0 \<longrightarrow>
            map_option recovery_attempts (get_job (database (fst (on_close now st i videoIndex code))) i)
              = Some (recovery_attempts cj)"
  proof (intro impI)
    assume h: "jstatus cj = Stopping \<or> code = Some 0"
    show "map_option recovery_attempts (get_job (database (fst (on_close now st i videoIndex code))) i)
              = Some (recovery_attempts cj)"
    proof (cases "jstatus cj = Stopping")
      case True
      then show ?thesis using on_close_stopping[OF assms True] fin by simp
    next
      case False
      then have c: "code = Some 0" using h by simp
      show ?thesis using on_close_success_db[OF assms False, of now videoIndex] fin assms
        unfolding c by auto
    qed
  qed
  have c: "\<forall>j \<in> set (processQueue current_timestamp st). or_zero (recovery_attempts j) < MAX_RECOVERY_ATTEMPTS"
    using processQueue_subset[of current_timestamp st] by (auto simp: admissible_def)
  show ?thesis using a b c by (simp add: MAX_RECOVERY_ATTEMPTS_def)
qed


text \<open>The third failure of the first example job makes it failed, and the admission
  query takes the queued job and leaves out the one whose counter is 3.\<close>

theorem recovery_attempts_bounded_retry_witness:
  "get_job (database example_orch) ''job1'' = Some example_job
   \<and> jstatus example_job \<noteq> Stopping \<and> Some 1 \<noteq> Some (0::int)
   \<and> map_option recovery_attempts
         (get_job (database (fst (on_close 100 example_orch ''job1'' 0 (Some 1)))) ''job1'')
       = Some (Some 3)
   \<and> map_option jstatus
         (get_job (database (fst (on_close 100 example_orch ''job1'' 0 (Some 1)))) ''job1'')
       = Some Failed
   \<and> example_job2 \<in> set (processQueue ''2026-01-01 00:00:00'' example_orch)
   \<and> or_zero (recovery_attempts example_job2) < MAX_RECOVERY_ATTEMPTS"
proof -
  have h1: "get_job (database example_orch) ''job1'' = Some example_job"
    by (simp add: example_orch_def example_db_def get_job_def example_job_def)
  have h2: "jstatus example_job \<noteq> Stopping"
    by (simp add: example_job_def)
  have pq: "processQueue ''2026-01-01 00:00:00'' example_orch = [example_job2]"
    by (simp add: processQueue_def example_orch_def example_db_def admissible_def
        example_job_def example_job2_def example_job3_def maxConcurrent_def
        MAX_RECOVERY_ATTEMPTS_def or_zero_def)
  have m: "MAX_RECOVERY_ATTEMPTS = 3"
    by (simp add: MAX_RECOVERY_ATTEMPTS_def)
  have a: "or_zero (recovery_attempts example_job) + 1 = 3"
    by (simp add: example_job_def or_zero_def)
  note t = recovery_attempts_bounded_retry[OF h1, where code = "Some 1" and now = 100
        and videoIndex = 0 and current_timestamp = "''2026-01-01 00:00:00''"]
  from t h2 have r1: "map_option recovery_attempts
         (get_job (database (fst (on_close 100 example_orch ''job1'' 0 (Some 1)))) ''job1'')
       = Some (Some 3)"
    unfolding a m by simp
  from t h2 have r2: "map_option jstatus
         (get_job (database (fst (on_close 100 example_orch ''job1'' 0 (Some 1)))) ''job1'')
       = Some Failed"
    unfolding a m by simp
  from t have r3: "or_zero (recovery_attempts example_job2) < MAX_RECOVERY_ATTEMPTS"
    unfolding pq by simp
  show ?thesis
    using h1 h2 r1 r2 r3 pq by simp
qed

text \<open>Against the claim as stated: the process of a stopping job exits with code 1;
  the counter stays at 2 and the job becomes stopped, neither failed nor
  failed_recovery.\<close>

theorem stopping_exit_not_counted:
  "map_option recovery_attempts (get_job (database example_stopping) ''job1'') = Some (Some 2)
   \<and> Some 1 \<noteq> Some (0::int)
   \<and> map_option recovery_attempts
         (get_job (database (fst (on_close 100 example_stopping ''job1'' 0 (Some 1)))) ''job1'')
       = Some (Some 2)
   \<and> map_option jstatus
         (get_job (database (fst (on_close 100 example_stopping ''job1'' 0 (Some 1)))) ''job1'')
       = Some Stopped"
proof -
  have g0: "get_job example_db ''job1'' = Some example_job"
    by (simp add: example_db_def get_job_def example_job_def)
  have g: "get_job (database example_stopping) ''job1'' = Some (example_job\<lparr>jstatus := Stopping\<rparr>)"
    by (simp add: example_stopping_def example_orch_def get_job_set_job_status g0)
  have s: "jstatus (example_job\<lparr>jstatus := Stopping\<rparr>) = Stopping"
    by simp
  show ?thesis
    using on_close_stopping[OF g s, of 100 0 "Some 1"] job_after_finalize[OF g, of 100] g
    by (simp add: example_job_def)
qed


section \<open>Properties of the viewer and health polling loop\<close>

lemma example_status_query:
  "withTokenRecovery example_env example_db ''page1'' (getLiveStatus example_env (Some ''lv1''))
     = (Inl (JsError ''Network Error'' None), example_db, [''tok:c-old''])"
  by (simp add: withTokenRecovery_def example_env_def example_db_def get_page_def example_page_def
      isExpired_def errorMsg_def str_or_def)

lemma example_active: "activeSessions 100 example_db = [(example_session, example_job)]"
  by (simp add: activeSessions_def example_db_def get_job_def example_session_def example_job_def)

lemma example_poll:
  "pollViewerStats example_env 100 example_orch =
     example_orch\<lparr>database :=
        set_job_status ''job1'' Stopping
          (set_job_status ''job1'' Circuit_breaker
             (update_sessions (\<lambda>s. sid s = ''s1'') (\<lambda>s. s\<lparr>api_fail_count := Some 5\<rparr>) example_db)),
        signalled := [7]\<rparr>"
proof -
  have p: "get_page example_db ''page1'' = Some example_page"
    by (simp add: get_page_def example_db_def example_page_def)
  have s: "settings example_db ''app_id'' = Some ''id''"
    "settings example_db ''app_secret'' = Some ''secret''"
    by (simp_all add: example_db_def)
  have f: "fst (example_session, example_job) = example_session"
          "snd (example_session, example_job) = example_job" by simp_all
  have v: "page_id example_job = ''page1''" "live_video_id example_session = Some ''lv1''"
    "or_zero (api_fail_count example_session) + 1 = 5" "sid example_session = ''s1''"
    "job_id example_session = ''job1''"
    by (simp_all add: example_job_def example_session_def or_zero_def)
  have db: "database example_orch = example_db" "activeStreams example_orch = [(''job1'', 7)]"
    "signalled example_orch = []"
    by (simp_all add: example_orch_def)
  have ps: "poll_session example_env 100 (example_session, example_job) example_orch =
     example_orch\<lparr>database :=
        set_job_status ''job1'' Stopping
          (set_job_status ''job1'' Circuit_breaker
             (update_sessions (\<lambda>s. sid s = ''s1'') (\<lambda>s. s\<lparr>api_fail_count := Some 5\<rparr>) example_db)),
        signalled := [7]\<rparr>"
    unfolding poll_session_def Let_def f v db p
    by (simp add: example_status_query v MAX_API_FAILURES_def stopStream_def db Let_def)
  show ?thesis
    by (simp add: pollViewerStats_def db s example_active ps)
qed


text \<open>
  Claim C4, evaluated where the code departs from it. The live session of the example
  has four failures on record and a supervised process; its status query fails. The
  poll stores the fifth failure and signals the process, but the status it leaves on the
  job is stopping: \<^verbatim>\<open>stopStream\<close> overwrites the circuit_breaker status written just
  before it, and the exit handler then finalizes the job to stopped.
\<close>

theorem circuit_breaker_overwritten_by_stop:
  "map_option api_fail_count
      (find (\<lambda>s. sid s = ''s1'')
         (stream_sessions (database (pollViewerStats example_env 100 example_orch))))
     = Some (Some 5)
   \<and> signalled (pollViewerStats example_env 100 example_orch) = [7]
   \<and> map_option jstatus
         (get_job (database (pollViewerStats example_env 100 example_orch)) ''job1'')
       = Some Stopping
   \<and> map_option jstatus
         (get_job (database (fst (on_close 101 (pollViewerStats example_env 100 example_orch)
                                    ''job1'' 0 None))) ''job1'')
       = Some Stopped"
proof -
  have g0: "get_job example_db ''job1'' = Some example_job"
    by (simp add: example_db_def get_job_def example_job_def)
  let ?d = "update_sessions (\<lambda>s. sid s = ''s1'') (\<lambda>s. s\<lparr>api_fail_count := Some 5\<rparr>) example_db"
  have g: "get_job (database (pollViewerStats example_env 100 example_orch)) ''job1''
             = Some (example_job\<lparr>jstatus := Stopping\<rparr>)"
    by (simp add: example_poll get_job_set_job_status g0)
  have c: "map_option api_fail_count
      (find (\<lambda>s. sid s = ''s1'')
         (stream_sessions (database (pollViewerStats example_env 100 example_orch))))
     = Some (Some 5)"
    by (simp add: example_poll update_sessions_def example_db_def example_session_def)
  have k: "signalled (pollViewerStats example_env 100 example_orch) = [7]"
    by (simp add: example_poll)
  have s: "jstatus (example_job\<lparr>jstatus := Stopping\<rparr>) = Stopping"
    by simp
  have e: "map_option jstatus
         (get_job (database (fst (on_close 101 (pollViewerStats example_env 100 example_orch)
                                    ''job1'' 0 None))) ''job1'')
       = Some Stopped"
    using on_close_stopping[OF g s, of 101 0 None] job_after_finalize[OF g, of 101] by simp
  show ?thesis
    using c k g e by simp
qed


section \<open>Properties of the token-recovery wrapper\<close>

lemma pages_refresh_step:
  "pages (fst (refresh_step ev pageId p acc)) = map (store_token ev p) (pages (fst acc))"
  by (simp add: refresh_step_def Let_def update_page_def store_token_def)

lemma pages_fold_refresh:
  "pages (fst (fold (refresh_step ev pageId) batch acc))
     = map (\<lambda>r. fold (store_token ev) batch r) (pages (fst acc))"
proof (induction batch arbitrary: acc)
  case Nil
  then show ?case by simp
next
  case (Cons p batch)
  show ?case
    by (simp add: Cons.IH pages_refresh_step comp_def)
qed

lemma pid_store_token [simp]: "pid (store_token ev p r) = pid r"
  by (simp add: store_token_def)

lemma pid_fold_store [simp]: "pid (fold (store_token ev) batch r) = pid r"
  by (induction batch arbitrary: r) simp_all

lemma fold_store_other:
  "\<forall>q \<in> set batch. info_id q \<noteq> pid r \<Longrightarrow> fold (store_token ev) batch r = r"
  by (induction batch arbitrary: r) (auto simp: store_token_def)

lemma fold_store_hit:
  assumes "distinct (map info_id batch)" and "p \<in> set batch" and "pid r = info_id p"
  shows "fold (store_token ev) batch r =
           r\<lparr>access_token_encrypted := ciphertext (encrypt ev (access_token p)),
             access_token_nonce := nonce (encrypt ev (access_token p)),
             access_token_tag := authTag (encrypt ev (access_token p))\<rparr>"
  using assms
proof (induction batch arbitrary: r)
  case Nil
  then show ?case by simp
next
  case (Cons q batch)
  show ?case
  proof (cases "q = p")
    case True
    have "info_id p \<notin> info_id ` set batch"
      using Cons.prems(1) True by simp
    then have "\<forall>x \<in> set batch. info_id x \<noteq> pid (store_token ev p r)"
      using Cons.prems(3) by (metis image_eqI pid_store_token)
    then show ?thesis
      using True Cons.prems(3) by (simp add: fold_store_other) (simp add: store_token_def)
  next
    case False
    then have "p \<in> set batch" using Cons.prems(2) by simp
    moreover have "info_id q \<noteq> pid r"
      using Cons.prems False \<open>p \<in> set batch\<close> by auto
    ultimately show ?thesis
      using Cons by (simp add: store_token_def)
  qed
qed

lemma newToken_absent:
  "pageId \<notin> info_id ` set batch \<Longrightarrow> snd (fold (refresh_step ev pageId) batch acc) = snd acc"
  by (induction batch arbitrary: acc) (auto simp: refresh_step_def Let_def)

lemma newToken_present:
  assumes "distinct (map info_id batch)" and "p \<in> set batch" and "info_id p = pageId"
  shows "snd (fold (refresh_step ev pageId) batch acc) = access_token p"
  using assms
proof (induction batch arbitrary: acc)
  case Nil
  then show ?case by simp
next
  case (Cons q batch)
  show ?case
  proof (cases "q = p")
    case True
    then have "pageId \<notin> info_id ` set batch" using Cons.prems by auto
    then show ?thesis
      using True Cons.prems(3) by (simp add: newToken_absent) (simp add: refresh_step_def Let_def)
  next
    case False
    then show ?thesis using Cons by simp
  qed
qed

lemma refreshed_rows:
  assumes "distinct (map info_id batch)" and "p \<in> set batch"
    and "row \<in> set (pages (fst (refresh_all ev pageId batch d)))" and "pid row = info_id p"
  shows "access_token_encrypted row = ciphertext (encrypt ev (access_token p))
       \<and> access_token_nonce row = nonce (encrypt ev (access_token p))
       \<and> access_token_tag row = authTag (encrypt ev (access_token p))"
proof -
  from assms(3) obtain r where r: "r \<in> set (pages d)" "row = fold (store_token ev) batch r"
    unfolding refresh_all_def pages_fold_refresh by auto
  then have "pid r = info_id p" using assms(4) by simp
  then show ?thesis
    unfolding r(2) fold_store_hit[OF assms(1,2) \<open>pid r = info_id p\<close>] by simp
qed

lemma same_pages_refreshed:
  "map pid (pages (fst (refresh_all ev pageId batch d))) = map pid (pages d)"
  by (simp add: refresh_all_def pages_fold_refresh comp_def)


lemma recover_calls: "length (snd (snd (recover ev d pageId action e))) \<le> 1"
  by (simp add: recover_def Let_def split: option.splits sum.splits prod.splits)

lemma withTokenRecovery_calls:
  "length (snd (snd (withTokenRecovery ev d pageId action))) \<le> 2"
proof -
  have "length (snd (snd (case recover ev d pageId action e of
                            (res, d', retried) \<Rightarrow> (res, d', token # retried)))) \<le> 2"
    for e token
    using recover_calls[of ev d pageId action e]
    by (cases "recover ev d pageId action e") auto
  then show ?thesis
    by (simp add: withTokenRecovery_def Let_def split: option.splits sum.splits)
qed

lemma recover_missing:
  assumes "settings d ''app_id'' = None \<or> settings d ''app_secret'' = None
           \<or> settings d ''user_token_encrypted'' = None"
  shows "recover ev d pageId action e = (Inl e, d, [])"
  using assms by (auto simp: recover_def split: option.splits)

lemma recover_refreshed:
  assumes "settings d ''app_id'' = Some a" "settings d ''app_secret'' = Some s"
    "settings d ''user_token_encrypted'' = Some c" "settings d ''user_token_nonce'' = Some n"
    "settings d ''user_token_tag'' = Some t" "decrypt ev c n t = Inr userToken"
    "syncPageTokens ev a s userToken = Inr batch"
  shows "recover ev d pageId action e =
     (if snd (refresh_all ev pageId batch d) = []
      then (Inl e, fst (refresh_all ev pageId batch d), [])
      else (case action 1 (snd (refresh_all ev pageId batch d)) of
              Inr r \<Rightarrow> (Inr r, fst (refresh_all ev pageId batch d), [snd (refresh_all ev pageId batch d)])
            | Inl recoveryErr \<Rightarrow>
                (Inl e, fst (refresh_all ev pageId batch d), [snd (refresh_all ev pageId batch d)])))"
  using assms by (simp add: recover_def Let_def split_beta)

lemma recover_sync_failed:
  assumes "settings d ''app_id'' = Some a" "settings d ''app_secret'' = Some s"
    "settings d ''user_token_encrypted'' = Some c" "settings d ''user_token_nonce'' = Some n"
    "settings d ''user_token_tag'' = Some t" "decrypt ev c n t = Inr userToken"
    "syncPageTokens ev a s userToken = Inl syncErr"
  shows "recover ev d pageId action e = (Inl e, d, [])"
  using assms by (simp add: recover_def)

lemma withTokenRecovery_expired:
  assumes "get_page d pageId = Some page"
    and "decrypt ev (access_token_encrypted page) (access_token_nonce page)
           (access_token_tag page) = Inr token"
    and "action 0 token = Inl e"
    and "isExpired e"
  shows "withTokenRecovery ev d pageId action =
           (fst (recover ev d pageId action e), fst (snd (recover ev d pageId action e)),
            token # snd (snd (recover ev d pageId action e)))"
  using assms by (simp add: withTokenRecovery_def Let_def split_beta)

text \<open>
  Claim C3. Let the first attempt of a wrapped call fail with an error whose message
  contains one of the two expired-credential substrings. If an account-level credential
  (app id, app secret or the encrypted user token) is missing, the original error is
  thrown and nothing is retried. If the account-level refresh returns a batch (of
  distinct destinations), then every page row of a destination in the batch holds the
  re-encrypted refreshed credential; if the requested destination is not in the batch
  the original error is thrown without a retry; if it is, the action is retried once
  with its refreshed credential, and the result is the retry's result, or the original
  error when the retry fails. If the refresh itself fails, the original error is thrown
  and nothing is retried. The action is never called more than twice.
\<close>

theorem token_recovery_single_retry:
  assumes page: "get_page d pageId = Some page"
    and tok: "decrypt ev (access_token_encrypted page) (access_token_nonce page)
                (access_token_tag page) = Inr token"
    and first: "action 0 token = Inl e"
    and expired: "isExpired e"
  shows "(settings d ''app_id'' = None \<or> settings d ''app_secret'' = None
            \<or> settings d ''user_token_encrypted'' = None
          \<longrightarrow> withTokenRecovery ev d pageId action = (Inl e, d, [token]))
       \<and> (settings d ''app_id'' = Some a \<and> settings d ''app_secret'' = Some s
            \<and> settings d ''user_token_encrypted'' = Some c
            \<and> settings d ''user_token_nonce'' = Some n \<and> settings d ''user_token_tag'' = Some t
            \<and> decrypt ev c n t = Inr userToken
            \<and> syncPageTokens ev a s userToken = Inr batch \<and> distinct (map info_id batch)
          \<longrightarrow> (case withTokenRecovery ev d pageId action of
                 (res, d', calls) \<Rightarrow>
                   (\<forall>p \<in> set batch. \<forall>row \<in> set (pages d'). pid row = info_id p \<longrightarrow>
                      access_token_encrypted row = ciphertext (encrypt ev (access_token p))
                      \<and> access_token_nonce row = nonce (encrypt ev (access_token p))
                      \<and> access_token_tag row = authTag (encrypt ev (access_token p)))
                   \<and> map pid (pages d') = map pid (pages d)
                   \<and> (pageId \<notin> info_id ` set batch \<longrightarrow> res = Inl e \<and> calls = [token])
                   \<and> (\<forall>p \<in> set batch. info_id p = pageId \<and> access_token p \<noteq> [] \<longrightarrow>
                        calls = [token, access_token p]
                        \<and> res = (case action 1 (access_token p) of
                                   Inr r \<Rightarrow> Inr r | Inl retryErr \<Rightarrow> Inl e))))
       \<and> (settings d ''app_id'' = Some a \<and> settings d ''app_secret'' = Some s
            \<and> settings d ''user_token_encrypted'' = Some c
            \<and> settings d ''user_token_nonce'' = Some n \<and> settings d ''user_token_tag'' = Some t
            \<and> decrypt ev c n t = Inr userToken
            \<and> syncPageTokens ev a s userToken = Inl syncErr
          \<longrightarrow> withTokenRecovery ev d pageId action = (Inl e, d, [token]))
       \<and> length (snd (snd (withTokenRecovery ev d pageId action))) \<le> 2"
proof -
  note w = withTokenRecovery_expired[where action = action and ev = ev, OF page tok first expired]
  have A: "settings d ''app_id'' = None \<or> settings d ''app_secret'' = None
            \<or> settings d ''user_token_encrypted'' = None
          \<longrightarrow> withTokenRecovery ev d pageId action = (Inl e, d, [token])"
    using recover_missing[of d ev pageId action e] unfolding w by auto
  have B: "case withTokenRecovery ev d pageId action of
                 (res, d', calls) \<Rightarrow>
                   (\<forall>p \<in> set batch. \<forall>row \<in> set (pages d'). pid row = info_id p \<longrightarrow>
                      access_token_encrypted row = ciphertext (encrypt ev (access_token p))
                      \<and> access_token_nonce row = nonce (encrypt ev (access_token p))
                      \<and> access_token_tag row = authTag (encrypt ev (access_token p)))
                   \<and> map pid (pages d') = map pid (pages d)
                   \<and> (pageId \<notin> info_id ` set batch \<longrightarrow> res = Inl e \<and> calls = [token])
                   \<and> (\<forall>p \<in> set batch. info_id p = pageId \<and> access_token p \<noteq> [] \<longrightarrow>
                        calls = [token, access_token p]
                        \<and> res = (case action 1 (access_token p) of
                                   Inr r \<Rightarrow> Inr r | Inl retryErr \<Rightarrow> Inl e))"
    if h: "settings d ''app_id'' = Some a" "settings d ''app_secret'' = Some s"
      "settings d ''user_token_encrypted'' = Some c" "settings d ''user_token_nonce'' = Some n"
      "settings d ''user_token_tag'' = Some t" "decrypt ev c n t = Inr userToken"
      "syncPageTokens ev a s userToken = Inr batch" and dist: "distinct (map info_id batch)"
  proof -
    let ?d' = "fst (refresh_all ev pageId batch d)"
    let ?nt = "snd (refresh_all ev pageId batch d)"
    note r = recover_refreshed[OF h, of pageId action e]
    have d': "fst (snd (withTokenRecovery ev d pageId action)) = ?d'"
      unfolding w r by (simp split: sum.splits)
    have rows: "\<forall>p \<in> set batch. \<forall>row \<in> set (pages ?d'). pid row = info_id p \<longrightarrow>
                  access_token_encrypted row = ciphertext (encrypt ev (access_token p))
                  \<and> access_token_nonce row = nonce (encrypt ev (access_token p))
                  \<and> access_token_tag row = authTag (encrypt ev (access_token p))"
      using refreshed_rows[OF dist] by blast
    have ids: "map pid (pages ?d') = map pid (pages d)"
      by (rule same_pages_refreshed)
    have absent: "fst (withTokenRecovery ev d pageId action) = Inl e
                  \<and> snd (snd (withTokenRecovery ev d pageId action)) = [token]"
      if "pageId \<notin> info_id ` set batch"
    proof -
      have "?nt = []" using newToken_absent[OF that] by (simp add: refresh_all_def)
      then show ?thesis unfolding w r by simp
    qed
    have present: "snd (snd (withTokenRecovery ev d pageId action)) = [token, access_token p]
                   \<and> fst (withTokenRecovery ev d pageId action)
                       = (case action 1 (access_token p) of Inr r \<Rightarrow> Inr r | Inl retryErr \<Rightarrow> Inl e)"
      if "p \<in> set batch" "info_id p = pageId" "access_token p \<noteq> []" for p
    proof -
      have "?nt = access_token p"
        using newToken_present[OF dist that(1,2)] by (simp add: refresh_all_def)
      then show ?thesis unfolding w r using that(3) by (simp split: sum.splits)
    qed
    show ?thesis
      using d' rows ids absent present
      by (cases "withTokenRecovery ev d pageId action") simp
  qed
  have C: "length (snd (snd (withTokenRecovery ev d pageId action))) \<le> 2"
    by (rule withTokenRecovery_calls)
  have D: "withTokenRecovery ev d pageId action = (Inl e, d, [token])"
    if "settings d ''app_id'' = Some a" "settings d ''app_secret'' = Some s"
      "settings d ''user_token_encrypted'' = Some c" "settings d ''user_token_nonce'' = Some n"
      "settings d ''user_token_tag'' = Some t" "decrypt ev c n t = Inr userToken"
      "syncPageTokens ev a s userToken = Inl syncErr"
    unfolding w recover_sync_failed[OF that, of pageId action e] by simp
  show ?thesis
  proof (intro conjI)
    show "settings d ''app_id'' = None \<or> settings d ''app_secret'' = None
            \<or> settings d ''user_token_encrypted'' = None
          \<longrightarrow> withTokenRecovery ev d pageId action = (Inl e, d, [token])"
      by (rule A)
  next
    show "length (snd (snd (withTokenRecovery ev d pageId action))) \<le> 2"
      by (rule C)
  next
    show "settings d ''app_id'' = Some a \<and> settings d ''app_secret'' = Some s
            \<and> settings d ''user_token_encrypted'' = Some c
            \<and> settings d ''user_token_nonce'' = Some n \<and> settings d ''user_token_tag'' = Some t
            \<and> decrypt ev c n t = Inr userToken
            \<and> syncPageTokens ev a s userToken = Inl syncErr
          \<longrightarrow> withTokenRecovery ev d pageId action = (Inl e, d, [token])"
      by (intro impI, elim conjE, rule D; assumption)
  qed (intro impI, elim conjE, rule B; assumption)
qed


text \<open>The first page's call fails as expired and succeeds with the refreshed
  credential; both pages of the batch are stored re-encrypted.\<close>

theorem token_recovery_single_retry_witness:
  "get_page example_db ''page1'' = Some example_page
   \<and> decrypt example_env (access_token_encrypted example_page) (access_token_nonce example_page)
         (access_token_tag example_page) = Inr ''tok:c-old''
   \<and> example_action 0 ''tok:c-old'' = Inl example_expired
   \<and> isExpired example_expired
   \<and> syncPageTokens example_env ''id'' ''secret'' ''tok:c-user'' = Inr example_batch
   \<and> distinct (map info_id example_batch)
   \<and> fst (withTokenRecovery example_env example_db ''page1'' example_action) = Inr ''ok''
   \<and> snd (snd (withTokenRecovery example_env example_db ''page1'' example_action))
       = [''tok:c-old'', ''fresh1'']
   \<and> map access_token_encrypted
         (pages (fst (snd (withTokenRecovery example_env example_db ''page1'' example_action))))
       = [''enc:fresh1'', ''enc:fresh2'']"
proof -
  have page: "get_page example_db ''page1'' = Some example_page"
    by (simp add: get_page_def example_db_def example_page_def)
  have tok: "decrypt example_env (access_token_encrypted example_page)
               (access_token_nonce example_page) (access_token_tag example_page) = Inr ''tok:c-old''"
    by (simp add: example_env_def example_page_def)
  have first: "example_action 0 ''tok:c-old'' = Inl example_expired"
    by (simp add: example_action_def)
  have expired: "isExpired example_expired"
    by (simp add: isExpired_def errorMsg_def str_or_def example_expired_def)
  have st: "settings example_db ''app_id'' = Some ''id''"
    "settings example_db ''app_secret'' = Some ''secret''"
    "settings example_db ''user_token_encrypted'' = Some ''c-user''"
    "settings example_db ''user_token_nonce'' = Some ''n''"
    "settings example_db ''user_token_tag'' = Some ''t''"
    by (simp_all add: example_db_def)
  have dec: "decrypt example_env ''c-user'' ''n'' ''t'' = Inr ''tok:c-user''"
    by (simp add: example_env_def)
  have sync: "syncPageTokens example_env ''id'' ''secret'' ''tok:c-user'' = Inr example_batch"
    by (simp add: example_env_def)
  have dist: "distinct (map info_id example_batch)"
    by (simp add: example_batch_def)
  have p1: "\<lparr>info_id = ''page1'', access_token = ''fresh1''\<rparr> \<in> set example_batch"
    and p2: "\<lparr>info_id = ''page2'', access_token = ''fresh2''\<rparr> \<in> set example_batch"
    by (simp_all add: example_batch_def)
  obtain res d' calls
    where w: "withTokenRecovery example_env example_db ''page1'' example_action = (res, d', calls)"
    by (cases "withTokenRecovery example_env example_db ''page1'' example_action") auto
  note t = token_recovery_single_retry[where action = example_action and ev = example_env,
      OF page tok first expired, where a = "''id''" and s = "''secret''" and c = "''c-user''"
      and n = "''n''" and t = "''t''" and userToken = "''tok:c-user''" and batch = example_batch]
  from t st dec sync dist
  have rows: "\<forall>p \<in> set example_batch. \<forall>row \<in> set (pages d'). pid row = info_id p \<longrightarrow>
                access_token_encrypted row = ciphertext (encrypt example_env (access_token p))"
    and ids: "map pid (pages d') = map pid (pages example_db)"
    and hit: "\<forall>p \<in> set example_batch. info_id p = ''page1'' \<and> access_token p \<noteq> [] \<longrightarrow>
                calls = [''tok:c-old'', access_token p]
                \<and> res = (case example_action 1 (access_token p) of
                           Inr r \<Rightarrow> Inr r | Inl retryErr \<Rightarrow> Inl example_expired)"
    unfolding w by simp_all
  from hit p1 have r1: "calls = [''tok:c-old'', ''fresh1'']" and r2: "res = Inr ''ok''"
    by (auto simp: example_action_def)
  from ids obtain x y where xy: "pages d' = [x, y]" "pid x = ''page1''" "pid y = ''page2''"
    by (auto simp: example_db_def example_page_def example_page2_def map_eq_Cons_conv)
  from rows p1 xy have e1: "access_token_encrypted x = ''enc:fresh1''"
    by (auto simp: example_env_def)
  from rows p2 xy have e2: "access_token_encrypted y = ''enc:fresh2''"
    by (auto simp: example_env_def)
  show ?thesis
    using page tok first expired sync dist r1 r2 e1 e2 xy(1) unfolding w by simp
qed



section \<open>Properties of the start sequence\<close>






lemma get_page_set_job_status [simp]: "get_page (set_job_status i s d) = get_page d"
  by (simp add: get_page_def set_job_status_def update_job_def fun_eq_iff)

lemma get_video_set_job_status [simp]: "get_video (set_job_status i s d) = get_video d"
  by (simp add: get_video_def set_job_status_def update_job_def fun_eq_iff)

lemma settings_set_job_status [simp]: "settings (set_job_status i s d) = settings d"
  by (simp add: set_job_status_def update_job_def)








lemma editing_profiles_set_job_status [simp]:
  "editing_profiles (set_job_status i s d) = editing_profiles d"
  by (simp add: set_job_status_def update_job_def)













text \<open>
  Claim C8, evaluated where the code departs from it. The queue is cleared while the
  second example job is being started (its row is gone when the session is written).
  The broadcast is created, the process is spawned and registered, and the insert of the
  session row violates the foreign key; the handler of the exception does not touch the
  supervision table, so the entry of the job stays (here the handler's own insert
  fails as well, and no session row is written).
\<close>

theorem supervision_entry_left_after_failed_start:
  "get_job (database example_cleared) (jid example_job2) = None
   \<and> map_of (activeStreams example_cleared) ''job2'' = None
   \<and> escaped (snd (startStream example_env 100 example_cleared example_job2 0)) = Some fk_error
   \<and> spawned (snd (startStream example_env 100 example_cleared example_job2 0)) \<noteq> None
   \<and> map_of (activeStreams (fst (startStream example_env 100 example_cleared example_job2 0))) ''job2''
       = Some 8
   \<and> stream_sessions (database (fst (startStream example_env 100 example_cleared example_job2 0))) = []"
proof -
  let ?d = "example_db\<lparr>stream_queue := [], stream_sessions := []\<rparr>"
  have d0: "set_job_status i s ?d = ?d" for i s
    by (simp add: set_job_status_def update_job_def)
  have gj: "get_job ?d i = None" for i
    by (simp add: get_job_def)
  have pg: "get_page ?d ''page1'' = Some example_page"
    by (simp add: get_page_def example_db_def example_page_def)
  have gv: "get_video ?d ''v1'' = Some example_video"
    by (simp add: get_video_def example_db_def example_video_def)
  have st: "settings example_db ''app_id'' = Some ''id''"
    "settings example_db ''app_secret'' = Some ''secret''"
    by (simp_all add: example_db_def)
  have j: "jid example_job2 = ''job2''" "page_id example_job2 = ''page1''"
    "playlist example_job2 = Some [''v1'', ''v2'', ''v3'']"
    by (simp_all add: example_job2_def example_job_def)
  have cv: "current_videoId example_job2 0 = Some ''v1''"
    by (simp add: current_videoId_def j)
  have nr: "\<not> reuse_session ?d example_job2 0"
    by (simp add: reuse_session_def existingSession_def)
  have w: "withTokenRecovery example_env ?d ''page1'' (createLiveVideo example_env ''page1'' t ds)
             = (Inr \<lparr>lv_id = ''lv-new'', lv_video_id = Some ''vod-new'',
                      lv_stream_url = Some ''rtmps://ingest/new''\<rparr>, ?d, [''tok:c-old''])" for t ds
    by (simp add: withTokenRecovery_def pg example_page_def example_env_def)
  have rb: "resolve_broadcast example_env ?d example_job2 0 example_page example_video
              = (Inr (JsString ''lv-new'', JsString ''vod-new'', JsString ''rtmps://ingest/new''), ?d,
                 [(''tok:c-old'', broadcast_title example_job2 example_video,
                   broadcast_description example_job2)])"
    using nr by (simp add: resolve_broadcast_def Let_def w example_page_def of_field_def)
  let ?st = "\<lparr>database = ?d, activeStreams = [], signalled = []\<rparr>"
  have sp: "spawn example_env a = Inr 8" for a
    by (simp add: example_env_def)
  have sr: "spawn_and_record example_env 100 ?st ?d example_job2 0 example_video
              (JsString ''lv-new'') (JsString ''vod-new'') (JsString ''rtmps://ingest/new'')
            = Inl (fk_error, ?st\<lparr>activeStreams := [(''job2'', 8)]\<rparr>,
                   Some (forStreaming (runtime example_env) (getBestEncoder (hardware example_env))
                           ''rtmps://ingest/new'' (Some (shouldLoopFfmpeg example_job2))
                           (job_builder example_env ?d example_job2 example_video)))"
    by (simp add: spawn_and_record_def stream_args_def to_arg_def Let_def sp insert_session_def
        new_session_def gj j)
  have ts: "try_start example_env 100 ?st example_job2 0
            = (Inl (fk_error, ?st\<lparr>activeStreams := [(''job2'', 8)]\<rparr>,
                   Some (forStreaming (runtime example_env) (getBestEncoder (hardware example_env))
                           ''rtmps://ingest/new'' (Some (shouldLoopFfmpeg example_job2))
                           (job_builder example_env ?d example_job2 example_video))),
               [(''tok:c-old'', broadcast_title example_job2 example_video,
                 broadcast_description example_job2)])"
    by (simp add: try_start_def Let_def j pg cv gv st rb sr)
  have ss: "startStream example_env 100 example_cleared example_job2 0
            = (?st\<lparr>activeStreams := [(''job2'', 8)]\<rparr>,
               \<lparr>escaped = Some fk_error,
                create_calls = [(''tok:c-old'', broadcast_title example_job2 example_video,
                                 broadcast_description example_job2)],
                spawned = Some (forStreaming (runtime example_env) (getBestEncoder (hardware example_env))
                           ''rtmps://ingest/new'' (Some (shouldLoopFfmpeg example_job2))
                           (job_builder example_env ?d example_job2 example_video))\<rparr>)"
    by (simp add: startStream_def example_cleared_def d0 ts insert_or_replace_session_def
        failed_session_def gj j)
  show ?thesis
    unfolding ss by (simp add: example_cleared_def gj)
qed



section \<open>Properties of the pipeline compiler\<close>

lemma str_includes_sublist: "str_includes s n \<longleftrightarrow> sublist n s"
  by (induction s) (auto simp: sublist_Cons_right)

lemma str_includes_appendI: "str_includes (ps @ n @ ss) n"
  by (simp add: str_includes_sublist)

lemma str_includes_mid: "str_includes b n \<Longrightarrow> str_includes (a @ b @ c) n"
  unfolding str_includes_sublist sublist_def by (metis append.assoc)

lemma str_includes_right: "str_includes b n \<Longrightarrow> str_includes (a @ b) n"
  using str_includes_mid[of b n a "[]"] by simp

lemma ns_int [simp]:
  "ns js 0 = ''0''" "ns js 1 = ''1''" "ns js 1920 = ''1920''" "ns js 1080 = ''1080''"
  "ns js 1350 = ''1350''" "ns js 4500 = ''4500''" "ns js 128 = ''128''"
  by (simp_all add: ns_def num_str_def show_int_def show_nat.simps digit_char_def)

lemma overlay_tail_includes: "str_includes (overlay_tail js profile) ''overlay''"
proof -
  have "str_includes (''[bg][fg]'' @ ''overlay'' @ rest) ''overlay''" for rest
    by (rule str_includes_appendI)
  then show ?thesis by (simp add: overlay_tail_def Let_def)
qed

lemma layout_graph_includes: "str_includes (layout_graph js profile w h) ''overlay''"
  unfolding layout_graph_def Let_def
  using overlay_tail_includes[of js profile]
  by (auto intro!: str_includes_right)

lemma layout_graph_split: "prefix ''split='' (layout_graph js profile w h)"
  by (simp add: layout_graph_def Let_def)

lemma simple_scale_not_split: "\<not> prefix ''split='' (simple_scale js w h)"
  by (simp add: simple_scale_def)


lemma vf_push_vf: "videoFilters (push_vf f b) = videoFilters b @ [f]"
  by (simp add: push_vf_def)

lemma vf_push_af [simp]: "videoFilters (push_af f b) = videoFilters b"
  by (simp add: push_af_def)

lemma vf_apply_rotate: "set (videoFilters b) \<subseteq> set (videoFilters (apply_rotate profile b))"
  by (auto simp: apply_rotate_def vf_push_vf split: option.splits)

lemma vf_apply_flip: "set (videoFilters b) \<subseteq> set (videoFilters (apply_flip profile b))"
  by (auto simp: apply_flip_def vf_push_vf Let_def split: option.splits)

lemma vf_apply_color: "set (videoFilters b) \<subseteq> set (videoFilters (apply_color js profile b))"
  by (auto simp: apply_color_def vf_push_vf Let_def split: option.splits)

lemma vf_apply_protection:
  "set (videoFilters b) \<subseteq> set (videoFilters (apply_protection js profile b))"
  by (auto simp: apply_protection_def vf_push_vf Let_def split: option.splits)

lemma vf_apply_overlay: "set (videoFilters b) \<subseteq> set (videoFilters (apply_overlay js ov b))"
  by (auto simp: apply_overlay_def vf_push_vf Let_def)

lemma vf_apply_overlays:
  "set (videoFilters b) \<subseteq> set (videoFilters (apply_overlays js profile b))"
proof -
  have "set (videoFilters b) \<subseteq> set (videoFilters (fold (apply_overlay js) ovs b))" for ovs
  proof (induction ovs arbitrary: b)
    case Nil
    then show ?case by simp
  next
    case (Cons ov ovs)
    show ?case
      using vf_apply_overlay[of b js ov] Cons.IH[of "apply_overlay js ov b"] by auto
  qed
  then show ?thesis by (simp add: apply_overlays_def)
qed

lemma vf_apply_speed: "set (videoFilters b) \<subseteq> set (videoFilters (apply_speed js profile b))"
  by (auto simp: apply_speed_def vf_push_vf split: option.splits)

lemma vf_apply_audio: "videoFilters (apply_audio js profile b) = videoFilters b"
  by (simp add: apply_audio_def Let_def split: option.splits)

lemma vf_apply_layout:
  "videoFilters (apply_layout js profile b) = videoFilters b @ [layout_filter js profile]"
  by (simp add: apply_layout_def Let_def split_beta vf_push_vf push_vf_def)

lemma layout_filter_emitted:
  "layout_filter js profile \<in> set (videoFilters (applyProfile js profile b))"
proof -
  let ?b3 = "apply_layout js profile (apply_crop js profile (apply_trim js profile (apply_loop profile b)))"
  have "layout_filter js profile \<in> set (videoFilters ?b3)"
    by (simp add: vf_apply_layout)
  then show ?thesis
    unfolding applyProfile_def vf_apply_audio
    using vf_apply_rotate vf_apply_flip vf_apply_color vf_apply_protection vf_apply_overlays
      vf_apply_speed
    by (meson subsetD)
qed

text \<open>
  Claim C6. The layout stage pushes one filter entry, which is in the filter list of the
  compiled profile. That entry is the simple scale and pad filter exactly when the zoom
  is 1 (or missing or 0, which default to 1) and the background type is black (or the
  background is missing); then it does not start a split graph. For every other zoom or
  background it is a graph that starts with a split and contains an overlay stage.
\<close>

theorem simple_scale_iff_default_zoom_and_black:
  "videoFilters (apply_layout js profile b) = videoFilters b @ [layout_filter js profile]
   \<and> layout_filter js profile \<in> set (videoFilters (applyProfile js profile b))
   \<and> (layout_filter js profile
         = ''scale='' @ ns js (fst (target_resolution profile)) @ '':''
             @ ns js (snd (target_resolution profile))
             @ '':force_original_aspect_ratio=decrease,pad=''
             @ ns js (fst (target_resolution profile)) @ '':''
             @ ns js (snd (target_resolution profile)) @ '':(ow-iw)/2:(oh-ih)/2''
       \<longleftrightarrow> (zoom profile = None \<or> zoom profile = Some 0 \<or> zoom profile = Some 1)
            \<and> (case background profile of None \<Rightarrow> True | Some bg \<Rightarrow> bg_type bg = Black))
   \<and> ((zoom profile = None \<or> zoom profile = Some 0 \<or> zoom profile = Some 1)
        \<and> (case background profile of None \<Rightarrow> True | Some bg \<Rightarrow> bg_type bg = Black)
       \<longrightarrow> \<not> prefix ''split='' (layout_filter js profile))
   \<and> (\<not> ((zoom profile = None \<or> zoom profile = Some 0 \<or> zoom profile = Some 1)
           \<and> (case background profile of None \<Rightarrow> True | Some bg \<Rightarrow> bg_type bg = Black))
       \<longrightarrow> prefix ''split='' (layout_filter js profile)
           \<and> str_includes (layout_filter js profile) ''overlay'')"
proof -
  let ?cond = "(zoom profile = None \<or> zoom profile = Some 0 \<or> zoom profile = Some 1)
            \<and> (case background profile of None \<Rightarrow> True | Some bg \<Rightarrow> bg_type bg = Black)"
  obtain w h where wh: "target_resolution profile = (w, h)"
    by (cases "target_resolution profile") auto
  have n: "needsSmartLayout profile \<longleftrightarrow> \<not> ?cond"
    by (auto simp: needsSmartLayout_def profile_zoom_def num_or_def bgType_def split: option.splits)
  have simple: "layout_filter js profile = simple_scale js w h" if ?cond
    using that n by (simp add: layout_filter_def wh)
  have graph: "layout_filter js profile = layout_graph js profile w h" if "\<not> ?cond"
    using that n by (simp add: layout_filter_def wh)
  have s: "simple_scale js w h = ''scale='' @ ns js w @ '':'' @ ns js h
             @ '':force_original_aspect_ratio=decrease,pad='' @ ns js w @ '':'' @ ns js h
             @ '':(ow-iw)/2:(oh-ih)/2''"
    by (simp add: simple_scale_def)
  have ne: "layout_graph js profile w h \<noteq> simple_scale js w h"
    using layout_graph_split[of js profile w h] simple_scale_not_split[of js w h] by auto
  have iff: "layout_filter js profile = simple_scale js w h \<longleftrightarrow> ?cond"
    using simple graph ne by metis
  have a: "?cond \<longrightarrow> \<not> prefix ''split='' (layout_filter js profile)"
    using simple simple_scale_not_split[of js w h] by simp
  have b: "\<not> ?cond \<longrightarrow> prefix ''split='' (layout_filter js profile)
           \<and> str_includes (layout_filter js profile) ''overlay''"
    using graph layout_graph_split[of js profile w h] layout_graph_includes[of js profile w h]
    by simp
  show ?thesis
    using vf_apply_layout[of js profile b] layout_filter_emitted[of js profile b] iff a b
    unfolding s wh by simp
qed


text \<open>The empty profile gets the simple filter at 1920 by 1080; with zoom 2 it gets
  the graph.\<close>

theorem simple_scale_iff_default_zoom_and_black_witness:
  "zoom example_profile = None \<and> background example_profile = None
   \<and> layout_filter example_js example_profile
       = ''scale=1920:1080:force_original_aspect_ratio=decrease,pad=1920:1080:(ow-iw)/2:(oh-ih)/2''
   \<and> \<not> prefix ''split='' (layout_filter example_js example_profile)
   \<and> zoom (example_profile\<lparr>zoom := Some 2\<rparr>) = Some 2
   \<and> prefix ''split='' (layout_filter example_js (example_profile\<lparr>zoom := Some 2\<rparr>))
   \<and> str_includes (layout_filter example_js (example_profile\<lparr>zoom := Some 2\<rparr>)) ''overlay''"
proof -
  have z: "zoom example_profile = None" and bg: "background example_profile = None"
    by (simp_all add: example_profile_def)
  have tr: "target_resolution example_profile = (1920, 1080)"
    by (simp add: target_resolution_def example_profile_def)
  note t1 = simple_scale_iff_default_zoom_and_black[of example_js example_profile
      "new_builder ''in.mp4''"]
  from t1 have a: "layout_filter example_js example_profile
       = ''scale=1920:1080:force_original_aspect_ratio=decrease,pad=1920:1080:(ow-iw)/2:(oh-ih)/2''"
    and b: "\<not> prefix ''split='' (layout_filter example_js example_profile)"
    unfolding z bg tr by simp_all
  have z2: "zoom (example_profile\<lparr>zoom := Some 2\<rparr>) = Some 2"
    by simp
  note t2 = simple_scale_iff_default_zoom_and_black[of example_js
      "example_profile\<lparr>zoom := Some 2\<rparr>" "new_builder ''in.mp4''"]
  from t2 have c: "prefix ''split='' (layout_filter example_js (example_profile\<lparr>zoom := Some 2\<rparr>))"
    and d: "str_includes (layout_filter example_js (example_profile\<lparr>zoom := Some 2\<rparr>)) ''overlay''"
    unfolding z2 by simp_all
  show ?thesis
    using z bg a b z2 c d by simp
qed


lemma ns_of_int: "\<bar>k\<bar> < 10 ^ 21 \<Longrightarrow> ns js (of_int k) = show_int k"
proof -
  assume "\<bar>k\<bar> < 10 ^ 21"
  then have "\<bar>of_int k :: real\<bar> < 10 ^ 21"
    by (metis of_int_abs of_int_less_iff of_int_numeral of_int_power)
  then show ?thesis
    by (simp add: ns_def num_str_def)
qed

lemma show_nat_values:
  "show_nat 0 = ''0''" "show_nat 1 = ''1''" "show_nat 2 = ''2''" "show_nat 5 = ''5''"
  "show_nat 192 = ''192''" "show_nat 1920 = ''1920''" "show_nat 1080 = ''1080''"
  "show_nat 4500 = ''4500''" "show_nat 128 = ''128''"
  by (simp_all add: show_nat.simps digit_char_def)

lemma show_nat_Suc_0: "show_nat (Suc 0) = ''1''"
  by (subst show_nat.simps) (simp add: digit_char_def)

lemma show_nat_Suc_Suc_0: "show_nat (Suc (Suc 0)) = ''2''"
  by (subst show_nat.simps) (simp add: digit_char_def)

lemma double_near: "\<bar>double js x - x\<bar> \<le> \<bar>x\<bar> / 2 ^ 53"
proof -
  define e where "e = \<bar>x\<bar> / 2 ^ 53"
  have "0 \<le> e" by (simp add: e_def)
  then have "\<bar>max (x - e) (min (x + e) (fl js x)) - x\<bar> \<le> e"
    by (simp add: max_def min_def) linarith
  then show ?thesis
    by (simp add: double_def e_def)
qed

lemma js_round_near:
  assumes "\<bar>y - of_int k\<bar> < 1 / 2"
  shows "js_round y = of_int k"
proof -
  from assms have "of_int k \<le> y + 1 / 2" "y + 1 / 2 < of_int k + 1"
    by linarith+
  then have "\<lfloor>y + 1 / 2\<rfloor> = k"
    by (simp add: floor_unique)
  then show ?thesis
    by (simp add: js_round_def)
qed

lemma round_double_5: "js_round (double js 5) = 5"
proof -
  have "\<bar>double js 5 - 5\<bar> \<le> \<bar>5\<bar> / 2 ^ 53"
    by (rule double_near)
  then have "\<bar>double js 5 - of_int 5\<bar> < 1 / 2"
    by simp
  from js_round_near[OF this] show ?thesis by simp
qed

lemma logo_dim_192: "logo_dim js 1920 (Some 100) = 192"
proof -
  let ?q = "double js (100 / 1000)"
  let ?p = "double js (1920 * ?q)"
  have q: "\<bar>?q - 100 / 1000\<bar> \<le> \<bar>100 / 1000\<bar> / 2 ^ 53"
    by (rule double_near)
  have p: "\<bar>?p - 1920 * ?q\<bar> \<le> \<bar>1920 * ?q\<bar> / 2 ^ 53"
    by (rule double_near)
  from q have q1: "\<bar>?q - 1 / 10\<bar> \<le> 1 / 10000" by simp
  then have q2: "\<bar>?q\<bar> \<le> 1 / 5" by linarith
  then have "\<bar>1920 * ?q\<bar> \<le> 384" by (simp add: abs_mult)
  then have "\<bar>1920 * ?q\<bar> / 2 ^ 53 \<le> 1 / 10" by simp
  with p have p1: "\<bar>?p - 1920 * ?q\<bar> \<le> 1 / 10" by linarith
  from q1 have "\<bar>1920 * ?q - 192\<bar> \<le> 192 / 1000" by linarith
  with p1 have "\<bar>?p - 192\<bar> < 1 / 2" by linarith
  then have "\<bar>?p - of_int 192\<bar> < 1 / 2" by simp
  from js_round_near[OF this] show ?thesis
    by (simp add: logo_dim_def)
qed

lemma logo_dim_negative: "logo_dim js w (Some (- 1)) = - 1"
  by (simp add: logo_dim_def)

lemma ns_values:
  "ns js 2 = ''2''" "ns js 5 = ''5''" "ns js 192 = ''192''" "ns js (- 1) = ''-1''"
proof -
  show "ns js 2 = ''2''" using ns_of_int[where js = js and k = 2] by (simp add: show_int_def show_nat_values)
  show "ns js 5 = ''5''" using ns_of_int[where js = js and k = 5] by (simp add: show_int_def show_nat_values)
  show "ns js 192 = ''192''" using ns_of_int[where js = js and k = 192] by (simp add: show_int_def show_nat_values)
  show "ns js (- 1) = ''-1''" using ns_of_int[where js = js and k = "- 1"] by (simp add: show_int_def show_nat_Suc_0)
qed


lemma stage_skips:
  "profile_loop profile = None \<Longrightarrow> apply_loop profile b = b"
  "trim profile = None \<Longrightarrow> apply_trim js profile b = b"
  "crop profile = None \<Longrightarrow> apply_crop js profile b = b"
  "rotate_angle profile = None \<Longrightarrow> apply_rotate profile b = b"
  "flip profile = None \<Longrightarrow> apply_flip profile b = b"
  "color profile = None \<Longrightarrow> apply_color js profile b = b"
  "protection profile = None \<Longrightarrow> apply_protection js profile b = b"
  "overlays profile = [] \<Longrightarrow> apply_overlays js profile b = b"
  "speed profile = None \<Longrightarrow> apply_speed js profile b = b"
  "audio profile = None \<Longrightarrow> apply_audio js profile b = b"
  by (simp_all add: apply_loop_def apply_trim_def apply_crop_def apply_rotate_def apply_flip_def
      apply_color_def apply_protection_def apply_overlays_def apply_speed_def apply_audio_def)

lemma bg_fields:
  "profile_loop example_bg_profile = None" "trim example_bg_profile = None"
  "crop example_bg_profile = None" "rotate_angle example_bg_profile = None"
  "flip example_bg_profile = None" "color example_bg_profile = None"
  "protection example_bg_profile = None" "overlays example_bg_profile = []"
  "speed example_bg_profile = None" "audio example_bg_profile = None"
  "offset example_bg_profile = None"
  "target_resolution example_bg_profile = (1920, 1080)"
  "needsSmartLayout example_bg_profile" "bgType example_bg_profile = Image"
  "bg_image example_bg_profile = Some ''bg.png''" "profile_zoom example_bg_profile = 1"
  by (simp_all add: example_bg_profile_def example_profile_def target_resolution_def
      needsSmartLayout_def bgType_def bg_image_def profile_zoom_def num_or_def)

lemma bg_layout_filter: "layout_filter js example_bg_profile = example_bg_graph"
  by (simp add: layout_filter_def bg_fields layout_graph_def fgChain_def bgChain_def
      overlay_tail_def example_bg_graph_def)

lemma bg_builder:
  "applyProfile js example_bg_profile (new_builder p) =
     (new_builder p)\<lparr>backgroundInput := Some ''bg.png'', videoFilters := [example_bg_graph]\<rparr>"
  by (simp add: applyProfile_def stage_skips bg_fields apply_layout_def bg_layout_filter
      push_vf_def new_builder_def)

lemma bg_build:
  "build js ''libx264'' ''rtmp://x'' False (applyProfile js example_bg_profile (new_builder ''in.mp4''))
     = [''-re'', ''-i'', ''in.mp4'', ''-i'', ''bg.png'', ''-vf'', example_bg_graph,
        ''-c:v'', ''libx264'', ''-b:v'', ''4500k'', ''-pix_fmt'', ''yuv420p'',
        ''-c:a'', ''aac'', ''-b:a'', ''128k'', ''-ar'', ''44100'', ''-f'', ''flv'', ''rtmp://x'']"
  unfolding bg_builder
  by (simp add: build_def filter_args_def bgInputIdx_def new_builder_def ns_int)


lemma logo_fields:
  "profile_loop example_bg_logo_profile = None" "trim example_bg_logo_profile = None"
  "crop example_bg_logo_profile = None" "rotate_angle example_bg_logo_profile = None"
  "flip example_bg_logo_profile = None" "color example_bg_logo_profile = None"
  "protection example_bg_logo_profile = None" "overlays example_bg_logo_profile = [example_logo]"
  "speed example_bg_logo_profile = None" "audio example_bg_logo_profile = None"
  "offset example_bg_logo_profile = None"
  "target_resolution example_bg_logo_profile = (1920, 1080)"
  "needsSmartLayout example_bg_logo_profile" "bgType example_bg_logo_profile = Image"
  "bg_image example_bg_logo_profile = Some ''bg.png''" "profile_zoom example_bg_logo_profile = 1"
  by (simp_all add: example_bg_logo_profile_def example_bg_profile_def example_profile_def
      target_resolution_def needsSmartLayout_def bgType_def bg_image_def profile_zoom_def num_or_def)

lemma logo_layout_filter: "layout_filter js example_bg_logo_profile = example_bg_graph"
  by (simp add: layout_filter_def logo_fields layout_graph_def fgChain_def bgChain_def
      overlay_tail_def example_bg_graph_def)

lemma logo_overlay:
  "apply_overlay js example_logo b =
     b\<lparr>logoInputs := logoInputs b @
        [\<lparr>logo_path = ''logo.png'', logo_x = Num 0, logo_y = Num 0, logo_width = Some 100,
          logo_height = Some (- 1), logo_enable = None\<rparr>]\<rparr>"
  by (simp add: apply_overlay_def example_logo_def has_content_def)

lemma logo_builder:
  "applyProfile js example_bg_logo_profile (new_builder p) =
     (new_builder p)\<lparr>backgroundInput := Some ''bg.png'', videoFilters := [example_bg_graph],
        logoInputs := [\<lparr>logo_path = ''logo.png'', logo_x = Num 0, logo_y = Num 0,
          logo_width = Some 100, logo_height = Some (- 1), logo_enable = None\<rparr>]\<rparr>"
  by (simp add: applyProfile_def stage_skips logo_fields apply_layout_def logo_layout_filter
      push_vf_def new_builder_def apply_overlays_def logo_overlay)

lemma replaced_graph:
  "replace_first ''[bg_img]'' ''[2:v]'' example_bg_graph
     = ''split=1[fg_src];[2:v]scale=1920:1080:force_original_aspect_ratio=increase,crop=1920:1080[bg];[fg_src]scale=iw*1:ih*1,scale=w=1920:h=1080:force_original_aspect_ratio=decrease[fg];[bg][fg]overlay=(W-w)/2+(0*W/100):(H-h)/2+(0*H/100)''"
  by (simp add: example_bg_graph_def)

lemma logo_filter_args:
  "filter_args js (applyProfile js example_bg_logo_profile (new_builder ''in.mp4''))
     = [''-filter_complex'',
        ''[0:v]split=1[fg_src];[2:v]scale=1920:1080:force_original_aspect_ratio=increase,crop=1920:1080[bg];[fg_src]scale=iw*1:ih*1,scale=w=1920:h=1080:force_original_aspect_ratio=decrease[fg];[bg][fg]overlay=(W-w)/2+(0*W/100):(H-h)/2+(0*H/100)[vbase];[1:v]scale=192:-1[sc1];[vbase][sc1]overlay=x=(W*0):y=(H*0)[vov1]'',
        ''-map'', ''[vov1]'', ''-map'', ''0:a'']"
  unfolding logo_builder
  by (simp add: filter_args_def bgInputIdx_def new_builder_def show_nat_values show_nat_Suc_0
      show_nat_Suc_Suc_0 replaced_graph logo_dim_192 logo_dim_negative ns_values ns_int coord_or_zero_def js_Number_def
      nan_str_def str_or_def Let_def)


text \<open>
  Claim C7, evaluated where the code departs from it. For a profile with an image
  background and no overlay image, the background image is registered as the input
  after the main content, but the filter list is passed with \<^verbatim>\<open>-vf\<close> as it is, the
  placeholder label \<^verbatim>\<open>[bg_img]\<close> still in it. With one overlay image the filter goes
  through \<^verbatim>\<open>-filter_complex\<close> and the label is rewritten to \<^verbatim>\<open>[2:v]\<close>, the index of the
  background input after the overlay image.
\<close>

theorem bg_img_placeholder_left_without_overlays:
  "build js ''libx264'' ''rtmp://x'' False
      (applyProfile js example_bg_profile (new_builder ''in.mp4''))
     = [''-re'', ''-i'', ''in.mp4'', ''-i'', ''bg.png'', ''-vf'',
        ''split=1[fg_src];[bg_img]scale=1920:1080:force_original_aspect_ratio=increase,crop=1920:1080[bg];[fg_src]scale=iw*1:ih*1,scale=w=1920:h=1080:force_original_aspect_ratio=decrease[fg];[bg][fg]overlay=(W-w)/2+(0*W/100):(H-h)/2+(0*H/100)'',
        ''-c:v'', ''libx264'', ''-b:v'', ''4500k'', ''-pix_fmt'', ''yuv420p'',
        ''-c:a'', ''aac'', ''-b:a'', ''128k'', ''-ar'', ''44100'', ''-f'', ''flv'', ''rtmp://x'']
   \<and> filter_args js (applyProfile js example_bg_logo_profile (new_builder ''in.mp4''))
     = [''-filter_complex'',
        ''[0:v]split=1[fg_src];[2:v]scale=1920:1080:force_original_aspect_ratio=increase,crop=1920:1080[bg];[fg_src]scale=iw*1:ih*1,scale=w=1920:h=1080:force_original_aspect_ratio=decrease[fg];[bg][fg]overlay=(W-w)/2+(0*W/100):(H-h)/2+(0*H/100)[vbase];[1:v]scale=192:-1[sc1];[vbase][sc1]overlay=x=(W*0):y=(H*0)[vov1]'',
        ''-map'', ''[vov1]'', ''-map'', ''0:a'']"
  using bg_build[of js] logo_filter_args[of js] by (simp add: example_bg_graph_def)

lemma show_nat_30: "show_nat 30 = ''30''"
  by (simp add: show_nat.simps digit_char_def)

lemma ns_30: "ns js 30 = ''30''"
  using ns_of_int[where js = js and k = 30] by (simp add: show_int_def show_nat_30)

lemma plain_fields:
  "profile_loop (example_profile\<lparr>protection := x\<rparr>) = None"
  "trim (example_profile\<lparr>protection := x\<rparr>) = None"
  "crop (example_profile\<lparr>protection := x\<rparr>) = None"
  "rotate_angle (example_profile\<lparr>protection := x\<rparr>) = None"
  "flip (example_profile\<lparr>protection := x\<rparr>) = None"
  "color (example_profile\<lparr>protection := x\<rparr>) = None"
  "overlays (example_profile\<lparr>protection := x\<rparr>) = []"
  "speed (example_profile\<lparr>protection := x\<rparr>) = None"
  "audio (example_profile\<lparr>protection := x\<rparr>) = None"
  "target_resolution (example_profile\<lparr>protection := x\<rparr>) = (1920, 1080)"
  "\<not> needsSmartLayout (example_profile\<lparr>protection := x\<rparr>)"
  "bg_image (example_profile\<lparr>protection := x\<rparr>) = None"
  by (simp_all add: example_profile_def target_resolution_def needsSmartLayout_def bgType_def
      bg_image_def profile_zoom_def num_or_def)

lemma plain_layout:
  "apply_layout js (example_profile\<lparr>protection := x\<rparr>) (new_builder p)
     = (new_builder p)\<lparr>videoFilters :=
          [''scale=1920:1080:force_original_aspect_ratio=decrease,pad=1920:1080:(ow-iw)/2:(oh-ih)/2'']\<rparr>"
  by (simp add: apply_layout_def plain_fields layout_filter_def simple_scale_def push_vf_def
      new_builder_def)

lemma noise_enable: "enableExpr js example_noise = ''lt(mod(n,30),1)''"
  by (simp add: enableExpr_def example_noise_def iFrames_def inj_count_def js_round_def num_or_def ns_30)

lemma noise_stage:
  "apply_protection js (example_profile\<lparr>protection := Some example_noise\<rparr>) b
     = push_vf ''noise=alls=5:allf=t'' b"
  by (simp add: apply_protection_def protection_active_def example_noise_def num_or_def
      round_double_5 ns_values)

lemma gray_stage:
  "apply_protection js (example_profile\<lparr>protection := Some (example_noise\<lparr>ptype := Grayscale\<rparr>)\<rparr>) b
     = push_vf (''hue=s=0:enable='' @ quote @ ''lt(mod(n,30),1)'' @ quote) b"
proof -
  have e: "enableExpr js (example_noise\<lparr>ptype := Grayscale\<rparr>) = ''lt(mod(n,30),1)''"
    by (simp add: enableExpr_def example_noise_def iFrames_def inj_count_def js_round_def
        num_or_def ns_30)
  show ?thesis
    by (simp add: apply_protection_def protection_active_def e enable_suffix_def)
       (simp add: example_noise_def num_or_def)
qed

text \<open>
  Claim C9, evaluated where the code departs from it. For a subtle-noise protection
  triggered on one frame in thirty, the enable expression is computed
  (\<^verbatim>\<open>lt(mod(n,30),1)\<close>) but the emitted noise filter does not carry it; the same
  descriptor with the grayscale effect emits its filter with the enable expression
  attached.
\<close>

theorem subtle_noise_without_enable:
  "enableExpr js example_noise = ''lt(mod(n,30),1)''
   \<and> videoFilters (applyProfile js (example_profile\<lparr>protection := Some example_noise\<rparr>)
                     (new_builder ''in.mp4''))
       = [''scale=1920:1080:force_original_aspect_ratio=decrease,pad=1920:1080:(ow-iw)/2:(oh-ih)/2'',
          ''noise=alls=5:allf=t'']
   \<and> videoFilters (applyProfile js
                     (example_profile\<lparr>protection := Some (example_noise\<lparr>ptype := Grayscale\<rparr>)\<rparr>)
                     (new_builder ''in.mp4''))
       = [''scale=1920:1080:force_original_aspect_ratio=decrease,pad=1920:1080:(ow-iw)/2:(oh-ih)/2'',
          ''hue=s=0:enable='' @ quote @ ''lt(mod(n,30),1)'' @ quote]"
proof -
  have a: "videoFilters (applyProfile js (example_profile\<lparr>protection := Some example_noise\<rparr>)
                     (new_builder ''in.mp4''))
       = [''scale=1920:1080:force_original_aspect_ratio=decrease,pad=1920:1080:(ow-iw)/2:(oh-ih)/2'',
          ''noise=alls=5:allf=t'']"
    unfolding applyProfile_def
    by (simp add: stage_skips plain_fields plain_layout noise_stage push_vf_def)
  have b: "videoFilters (applyProfile js
                     (example_profile\<lparr>protection := Some (example_noise\<lparr>ptype := Grayscale\<rparr>)\<rparr>)
                     (new_builder ''in.mp4''))
       = [''scale=1920:1080:force_original_aspect_ratio=decrease,pad=1920:1080:(ow-iw)/2:(oh-ih)/2'',
          ''hue=s=0:enable='' @ quote @ ''lt(mod(n,30),1)'' @ quote]"
    unfolding applyProfile_def
    by (simp add: stage_skips plain_fields plain_layout gray_stage push_vf_def)
  show ?thesis using noise_enable[of js] a b by simp
qed


lemma js_round_Ints: "js_round x \<in> \<int>"
  by (simp add: js_round_def)

lemma max_Ints: "(a::real) \<in> \<int> \<Longrightarrow> b \<in> \<int> \<Longrightarrow> max a b \<in> \<int>"
  by (simp add: max_def)

lemma num_or_1: "num_or v 1 = (case v of None \<Rightarrow> 1 | Some x \<Rightarrow> (if x = 0 then 1 else x))"
  by (simp add: num_or_def)

lemma max_num_or_1: "max 1 (num_or v 1) = max 1 (case v of None \<Rightarrow> 1 | Some x \<Rightarrow> x)"
  by (simp add: num_or_def split: option.splits)

lemma prob_bounds:
  "0 < min 1 (max 1 (a::real) / max 1 b)" "min 1 (max 1 (a::real) / max 1 b) \<le> 1"
proof -
  have "0 < max 1 a" "0 < max 1 b" by simp_all
  then have "0 < max 1 a / max 1 b" by simp
  then show "0 < min 1 (max 1 a / max 1 b)" by simp
  show "min 1 (max 1 a / max 1 b) \<le> 1" by simp
qed

text \<open>
  Claim C10. Whatever the protection descriptor holds, the enable expression is built
  from normalized numbers. In frame mode the interval is rounded and at least 2 and the
  injection count (1 when missing or 0) is rounded and at least 1. In random mode the
  probability is the smaller of 1 and the quotient of the injection count and the
  interval, each raised to at least 1 (a missing count being 1), so it lies above 0 and
  at most 1. In every other mode the interval is at least 0.1 and the duration is 0.04
  when missing (or 0), so it is never 0.
\<close>

theorem protection_trigger_normalized:
  "(mode p = Some Frame \<longrightarrow>
      enableExpr js p
        = ''lt(mod(n,'' @ ns js (max 2 (js_round (interval p))) @ ''),''
            @ ns js (max 1 (js_round (case injectionFrames p of
                                        None \<Rightarrow> 1 | Some v \<Rightarrow> (if v = 0 then 1 else v)))) @ '')''
      \<and> 2 \<le> max 2 (js_round (interval p)) \<and> max 2 (js_round (interval p)) \<in> \<int>
      \<and> 1 \<le> max 1 (js_round (case injectionFrames p of
                                 None \<Rightarrow> 1 | Some v \<Rightarrow> (if v = 0 then 1 else v)))
      \<and> max 1 (js_round (case injectionFrames p of
                             None \<Rightarrow> 1 | Some v \<Rightarrow> (if v = 0 then 1 else v))) \<in> \<int>)
   \<and> (mode p = Some Random \<longrightarrow>
      enableExpr js p
        = ''lt(random(1),''
            @ ns js (min 1 (max 1 (case injectionFrames p of None \<Rightarrow> 1 | Some v \<Rightarrow> v)
                            / max 1 (interval p))) @ '')''
      \<and> 0 < min 1 (max 1 (case injectionFrames p of None \<Rightarrow> 1 | Some v \<Rightarrow> v)
                     / max 1 (interval p))
      \<and> min 1 (max 1 (case injectionFrames p of None \<Rightarrow> 1 | Some v \<Rightarrow> v)
                 / max 1 (interval p)) \<le> 1
      \<and> 1 \<le> max 1 (interval p))
   \<and> (mode p \<noteq> Some Frame \<and> mode p \<noteq> Some Random \<longrightarrow>
      enableExpr js p
        = ''lt(mod(t,'' @ ns js (max (1 / 10) (interval p)) @ ''),''
            @ ns js (case duration p of
                       None \<Rightarrow> 4 / 100 | Some d \<Rightarrow> (if d = 0 then 4 / 100 else d)) @ '')''
      \<and> 1 / 10 \<le> max (1 / 10) (interval p)
      \<and> (case duration p of None \<Rightarrow> 4 / 100 | Some d \<Rightarrow> (if d = 0 then 4 / 100 else d)) \<noteq> 0)"
proof (intro conjI impI)
  assume m: "mode p = Some Frame"
  show "enableExpr js p
        = ''lt(mod(n,'' @ ns js (max 2 (js_round (interval p))) @ ''),''
            @ ns js (max 1 (js_round (case injectionFrames p of
                                        None \<Rightarrow> 1 | Some v \<Rightarrow> (if v = 0 then 1 else v)))) @ '')''"
    using m by (simp add: enableExpr_def iFrames_def inj_count_def num_or_1)
  show "2 \<le> max 2 (js_round (interval p))" by simp
  show "max 2 (js_round (interval p)) \<in> \<int>"
    by (rule max_Ints) (simp_all add: js_round_Ints)
  show "1 \<le> max 1 (js_round (case injectionFrames p of
                                 None \<Rightarrow> 1 | Some v \<Rightarrow> (if v = 0 then 1 else v)))"
    by simp
  show "max 1 (js_round (case injectionFrames p of
                             None \<Rightarrow> 1 | Some v \<Rightarrow> (if v = 0 then 1 else v))) \<in> \<int>"
    by (rule max_Ints) (simp_all add: js_round_Ints)
next
  assume m: "mode p = Some Random"
  show "enableExpr js p
        = ''lt(random(1),''
            @ ns js (min 1 (max 1 (case injectionFrames p of None \<Rightarrow> 1 | Some v \<Rightarrow> v)
                            / max 1 (interval p))) @ '')''"
    using m by (simp add: enableExpr_def prob_def Let_def max_num_or_1)
  show "0 < min 1 (max 1 (case injectionFrames p of None \<Rightarrow> 1 | Some v \<Rightarrow> v)
                     / max 1 (interval p))"
    by (rule prob_bounds)
  show "min 1 (max 1 (case injectionFrames p of None \<Rightarrow> 1 | Some v \<Rightarrow> v)
                 / max 1 (interval p)) \<le> 1"
    by (rule prob_bounds)
  show "1 \<le> max 1 (interval p)" by simp
next
  assume m: "mode p \<noteq> Some Frame \<and> mode p \<noteq> Some Random"
  show "enableExpr js p
        = ''lt(mod(t,'' @ ns js (max (1 / 10) (interval p)) @ ''),''
            @ ns js (case duration p of
                       None \<Rightarrow> 4 / 100 | Some d \<Rightarrow> (if d = 0 then 4 / 100 else d)) @ '')''"
    using m
    by (simp add: enableExpr_def time_interval_def time_duration_def num_or_def
        split: option.splits)
  show "1 / 10 \<le> max (1 / 10) (interval p)" by simp
  show "(case duration p of None \<Rightarrow> 4 / 100 | Some d \<Rightarrow> (if d = 0 then 4 / 100 else d)) \<noteq> 0"
    by (simp split: option.splits)
qed


text \<open>An interval and a count of 0 in frame mode become 2 and 1, and an interval of
  2.5 with a count of 1.5, which passes the guard of the stage, becomes 3 and 2; a count
  of 5 over an interval of 0 in random mode gives probability 1; with no mode, an
  interval of 0 and no duration the expression holds 0.1 and 0.04. The last two pass
  the guard of the stage as well.\<close>

theorem protection_trigger_normalized_witness:
  "mode (example_noise\<lparr>interval := 0, injectionFrames := Some 0\<rparr>) = Some Frame
   \<and> enableExpr example_js (example_noise\<lparr>interval := 0, injectionFrames := Some 0\<rparr>)
       = ''lt(mod(n,2),1)''
   \<and> mode (example_noise\<lparr>mode := Some Random, interval := 0, injectionFrames := Some 5\<rparr>)
       = Some Random
   \<and> enableExpr example_js
         (example_noise\<lparr>mode := Some Random, interval := 0, injectionFrames := Some 5\<rparr>)
       = ''lt(random(1),1)''
   \<and> mode (example_noise\<lparr>mode := None, interval := 0\<rparr>) \<noteq> Some Frame
   \<and> mode (example_noise\<lparr>mode := None, interval := 0\<rparr>) \<noteq> Some Random
   \<and> duration (example_noise\<lparr>mode := None, interval := 0\<rparr>) = None
   \<and> enableExpr example_js (example_noise\<lparr>mode := None, interval := 0\<rparr>)
       = ''lt(mod(t,'' @ ns example_js (1 / 10) @ ''),'' @ ns example_js (4 / 100) @ '')''
   \<and> mode (example_noise\<lparr>interval := 5 / 2, injectionFrames := Some (3 / 2)\<rparr>) = Some Frame
   \<and> protection_active (example_noise\<lparr>interval := 5 / 2, injectionFrames := Some (3 / 2)\<rparr>)
   \<and> enableExpr example_js (example_noise\<lparr>interval := 5 / 2, injectionFrames := Some (3 / 2)\<rparr>)
       = ''lt(mod(n,3),2)''
   \<and> protection_active
         (example_noise\<lparr>mode := Some Random, interval := 0, injectionFrames := Some 5\<rparr>)
   \<and> protection_active (example_noise\<lparr>mode := None, interval := 0\<rparr>)"
proof -
  let ?g = "example_noise\<lparr>interval := 5 / 2, injectionFrames := Some (3 / 2)\<rparr>"
  have g: "mode ?g = Some Frame" "interval ?g = 5 / 2" "injectionFrames ?g = Some (3 / 2)"
    by (simp_all add: example_noise_def)
  have rg: "js_round (5 / 2) = 3" "js_round (3 / 2) = 2"
    by (simp_all add: js_round_def)
  have n3: "ns example_js 3 = ''3''"
    using ns_of_int[where js = example_js and k = 3]
    by (simp add: show_int_def show_nat.simps digit_char_def)
  from protection_trigger_normalized[of ?g example_js] g(1)
  have e: "enableExpr example_js ?g = ''lt(mod(n,3),2)''"
    unfolding g(2,3) by (simp add: rg n3 ns_values)
  have pa: "protection_active ?g"
    "protection_active (example_noise\<lparr>mode := Some Random, interval := 0, injectionFrames := Some 5\<rparr>)"
    "protection_active (example_noise\<lparr>mode := None, interval := 0\<rparr>)"
    by (simp_all add: protection_active_def num_or_def example_noise_def)
  let ?f = "example_noise\<lparr>interval := 0, injectionFrames := Some 0\<rparr>"
  let ?r = "example_noise\<lparr>mode := Some Random, interval := 0, injectionFrames := Some 5\<rparr>"
  let ?t = "example_noise\<lparr>mode := None, interval := 0\<rparr>"
  have f: "mode ?f = Some Frame" "interval ?f = 0" "injectionFrames ?f = Some 0"
    by (simp_all add: example_noise_def)
  have r: "mode ?r = Some Random" "interval ?r = 0" "injectionFrames ?r = Some 5"
    by simp_all
  have t: "mode ?t \<noteq> Some Frame" "mode ?t \<noteq> Some Random" "interval ?t = 0" "duration ?t = None"
    by (simp_all add: example_noise_def)
  have rd: "js_round 0 = 0" "js_round 1 = 1"
    by (simp_all add: js_round_def)
  from protection_trigger_normalized[of ?f example_js] f(1)
  have a: "enableExpr example_js ?f = ''lt(mod(n,2),1)''"
    unfolding f(2,3) by (simp add: rd ns_values)
  from protection_trigger_normalized[of ?r example_js] r(1)
  have b: "enableExpr example_js ?r = ''lt(random(1),1)''"
    unfolding r(2,3) by simp
  from protection_trigger_normalized[of ?t example_js] t(1,2)
  have c: "enableExpr example_js ?t
       = ''lt(mod(t,'' @ ns example_js (1 / 10) @ ''),'' @ ns example_js (4 / 100) @ '')''"
    unfolding t(3,4) by simp
  show ?thesis
    using f(1) a r(1) b t(1,2,4) c g(1) pa e by simp
qed


section \<open>The start sequence on the example data\<close>












end
